theory Spec2Isabelle
  imports Complex_Main "HOL-Library.Word" "HOL-Library.Sublist" "HOL-Library.Log_Nat"
begin

unbundle bit_operations_syntax

section \<open>Sample conversion: the audio helpers\<close>

text \<open>
  A JavaScript number held in a \<^verbatim>\<open>Float32Array\<close> slot is a finite value, a NaN or an
  infinity.  A finite sample is kept as the real number it denotes: scaling a 32-bit float by
  \<open>32768 = 2^15\<close> in double precision and dividing a 16-bit integer by \<open>32768\<close> are both
  exact, so no rounding is lost by reading them over the reals.
\<close>

datatype js_number = Finite real | NaN | PosInfinity | NegInfinity

datatype js_error =
  RangeError | NotSupportedError | InvalidCharacterError | InvalidStateError | TypeError

text \<open>\<^verbatim>\<open>data[i] * 32768\<close>: multiplication of a number by a finite constant.\<close>

fun times_number :: "js_number \<Rightarrow> real \<Rightarrow> js_number" where
  "times_number (Finite x) c = Finite (x * c)"
| "times_number NaN c = NaN"
| "times_number PosInfinity c =
     (if c = 0 then NaN else if 0 < c then PosInfinity else NegInfinity)"
| "times_number NegInfinity c =
     (if c = 0 then NaN else if 0 < c then NegInfinity else PosInfinity)"

text \<open>Rounding towards zero, the first step of the conversion to an integer type.\<close>

definition trunc :: "real \<Rightarrow> int" where
  "trunc x = (if 0 \<le> x then \<lfloor>x\<rfloor> else \<lceil>x\<rceil>)"

text \<open>
  Storing a number into an \<^verbatim>\<open>Int16Array\<close> slot: NaN and the infinities become 0, a finite
  value is truncated and reduced modulo \<open>2^16\<close> (the word keeps the low 16 bits; \<open>sint\<close> reads
  them as two's complement).
\<close>

fun ToInt16 :: "js_number \<Rightarrow> 16 word" where
  "ToInt16 (Finite x) = word_of_int (trunc x)"
| "ToInt16 NaN = 0"
| "ToInt16 PosInfinity = 0"
| "ToInt16 NegInfinity = 0"

text \<open>The loop of \<^verbatim>\<open>createBlob\<close>: \<^verbatim>\<open>int16[i] = data[i] * 32768\<close> for every index.\<close>

definition createBlob_int16 :: "js_number list \<Rightarrow> 16 word list" where
  "createBlob_int16 data = map (\<lambda>x. ToInt16 (times_number x 32768)) data"

text \<open>
  \<^verbatim>\<open>new Uint8Array(int16.buffer)\<close> and \<^verbatim>\<open>new Int16Array(data.buffer)\<close>: the two views of
  one buffer, low byte first (the byte order of every platform the browsers run on).
\<close>

definition uint8_view :: "16 word list \<Rightarrow> 8 word list" where
  "uint8_view ws = concat (map (\<lambda>w. [ucast w, ucast (drop_bit 8 w)]) ws)"

fun int16_view :: "8 word list \<Rightarrow> 16 word list" where
  "int16_view (lo # hi # rest) = (push_bit 8 (ucast hi) OR ucast lo) # int16_view rest"
| "int16_view [b] = []"
| "int16_view [] = []"

text \<open>
  \<^verbatim>\<open>encode\<close> builds the binary string of the bytes and hands it to the host's \<^verbatim>\<open>btoa\<close>;
  \<^verbatim>\<open>decode\<close> reads the bytes back from the host's \<^verbatim>\<open>atob\<close>, which raises on a string that
  is not base64.  Both host functions are parameters.
\<close>

definition encode :: "(string \<Rightarrow> string) \<Rightarrow> 8 word list \<Rightarrow> string" where
  "encode btoa bytes = btoa (map (\<lambda>b. char_of (unat b)) bytes)"

definition decode :: "(string \<Rightarrow> string option) \<Rightarrow> string \<Rightarrow> js_error + 8 word list" where
  "decode atob base64 =
     (case atob base64 of
        None \<Rightarrow> Inl InvalidCharacterError
      | Some binaryString \<Rightarrow> Inr (map of_char binaryString))"

record Blob =
  blob_data :: string
  mimeType :: string

definition createBlob :: "(string \<Rightarrow> string) \<Rightarrow> js_number list \<Rightarrow> Blob" where
  "createBlob btoa data =
     \<lparr>blob_data = encode btoa (uint8_view (createBlob_int16 data)),
      mimeType = ''audio/pcm;rate=16000''\<rparr>"

text \<open>
  Times are JavaScript numbers too, and the arithmetic on them is binary64: the exact result
  of a sum or of a quotient is rounded to the nearest value with a significand of 53 bits,
  a tie going to the even significand, and a result of magnitude \<open>2^1024\<close> or more is an
  infinity.  For a positive \<open>x\<close>, \<open>exponent x\<close> is the integer \<open>e\<close> with
  \<open>2^e \<le> x < 2^(e+1)\<close>, and \<open>ulp x\<close> is the distance between the binary64 values around
  \<open>x\<close>: \<open>2^(e-52)\<close>, and \<open>2^-1074\<close> below \<open>2^-1022\<close>, where the values are subnormal.
\<close>

definition round_half_even :: "real \<Rightarrow> int" where
  "round_half_even x =
     (let n = \<lfloor>x\<rfloor>; r = x - of_int n
      in if r < 1 / 2 then n else if 1 / 2 < r then n + 1 else if even n then n else n + 1)"

definition exponent :: "real \<Rightarrow> int" where
  "exponent x = (if 1 \<le> x then bitlen \<lfloor>x\<rfloor> - 1 else - bitlen (\<lceil>1 / x\<rceil> - 1))"

definition ulp :: "real \<Rightarrow> real" where
  "ulp x = 2 powi (max (exponent \<bar>x\<bar>) (- 1022) - 52)"

definition binary64 :: "real \<Rightarrow> js_number" where
  "binary64 x =
     (let r = of_int (round_half_even (x / ulp x)) * ulp x
      in if 2 ^ 1024 \<le> r then PosInfinity
         else if r \<le> - (2 ^ 1024) then NegInfinity
         else Finite r)"

text \<open>The operators \<^verbatim>\<open>+\<close> and \<^verbatim>\<open><=\<close> on numbers, and \<^verbatim>\<open>Math.max\<close>.\<close>

fun plus_number :: "js_number \<Rightarrow> js_number \<Rightarrow> js_number" where
  "plus_number (Finite x) (Finite y) = binary64 (x + y)"
| "plus_number NaN y = NaN"
| "plus_number x NaN = NaN"
| "plus_number PosInfinity NegInfinity = NaN"
| "plus_number NegInfinity PosInfinity = NaN"
| "plus_number PosInfinity y = PosInfinity"
| "plus_number x PosInfinity = PosInfinity"
| "plus_number NegInfinity y = NegInfinity"
| "plus_number x NegInfinity = NegInfinity"

fun less_eq_number :: "js_number \<Rightarrow> js_number \<Rightarrow> bool" where
  "less_eq_number NaN y = False"
| "less_eq_number x NaN = False"
| "less_eq_number NegInfinity y = True"
| "less_eq_number x PosInfinity = True"
| "less_eq_number PosInfinity y = False"
| "less_eq_number x NegInfinity = False"
| "less_eq_number (Finite x) (Finite y) = (x \<le> y)"

fun Math_max :: "js_number \<Rightarrow> js_number \<Rightarrow> js_number" where
  "Math_max NaN y = NaN"
| "Math_max x NaN = NaN"
| "Math_max PosInfinity y = PosInfinity"
| "Math_max x PosInfinity = PosInfinity"
| "Math_max NegInfinity y = y"
| "Math_max x NegInfinity = x"
| "Math_max (Finite x) (Finite y) = Finite (max x y)"

text \<open>A number that a binary64 variable can hold: rounding leaves it as it is.\<close>

fun is_binary64 :: "js_number \<Rightarrow> bool" where
  "is_binary64 (Finite x) = (binary64 x = Finite x)"
| "is_binary64 x = True"

text \<open>
  An \<^verbatim>\<open>AudioBuffer\<close>: its sample rate and one list of samples per channel, all of
  \<open>frames\<close> samples.  \<^verbatim>\<open>duration\<close> is the frame count divided by the sample rate, a
  binary64 quotient.
\<close>

record AudioBuffer =
  sampleRate :: nat
  frames :: nat
  channelData :: "js_number list list"

definition duration :: "AudioBuffer \<Rightarrow> js_number" where
  "duration b = binary64 (real (frames b) / real (sampleRate b))"

text \<open>
  \<^verbatim>\<open>decodeAudioData\<close>.  The \<^verbatim>\<open>Int16Array\<close> view raises a RangeError on an odd number of
  bytes; \<^verbatim>\<open>createBuffer\<close> raises NotSupportedError for no channel or no frame (the frame
  count is cut to an integer on the way in); sample \<open>i\<close> of channel \<open>c\<close> is the interleaved
  16-bit value at \<open>i * numChannels + c\<close> divided by 32768.
\<close>

definition decodeAudioData ::
  "8 word list \<Rightarrow> nat \<Rightarrow> nat \<Rightarrow> js_error + AudioBuffer" where
  "decodeAudioData data rate numChannels =
     (if odd (length data) then Inl RangeError
      else
        let dataInt16 = int16_view data;
            frameCount = length dataInt16 div numChannels
        in if numChannels = 0 \<or> frameCount = 0 then Inl NotSupportedError
           else Inr \<lparr>sampleRate = rate, frames = frameCount,
                  channelData =
                    map (\<lambda>channel.
                          map (\<lambda>i. Finite (real_of_int (sint (dataInt16 ! (i * numChannels + channel)))
                                           / 32768))
                            [0..<frameCount])
                      [0..<numChannels]\<rparr>)"

section \<open>Session data\<close>

datatype ConversationStatus =
  Idle | Generating | Briefing | Ready | Active | Summarizing | PausedForFeedback | Error

datatype speaker = User | Npc

text \<open>A transcript entry; the field \<^verbatim>\<open>text\<close> is written \<open>text'\<close>.\<close>

record Transcript =
  speaker :: speaker
  text' :: string
  isFinal :: bool
  imageUrl :: "string option"

datatype level = Low | Medium | High

datatype gender = Male | Female | Neutral

datatype accent = Local | NeutralAccent | Heavy

record NpcProfile =
  npc_name :: string
  npc_gender :: gender
  voice :: string
  languages_primary :: string
  languages_secondary :: "string option"
  fluencyPrimary :: level
  fluencySecondary :: "level option"
  patience :: level
  helpfulness :: level
  npc_accent :: accent
  quirk :: string

record Scenario =
  locationName :: string
  locationType :: string
  task :: string
  npcProfile :: NpcProfile
  sceneDescription :: string
  conversationStarter :: speaker
  openingLine :: "string option"

record ConversationResult =
  finalSummary :: string
  whatWentWell :: "string list"
  whatToTryNext :: "string list"
  conversationTurns :: real
  immersionScore :: real
  suggestedContinuation :: "string option"
  suggestedContinuationExplanation :: "string option"

record Hint =
  suggestion :: string
  hint_translation :: string
  hint_pronunciation :: string
  explanation :: string

record TranslationResult =
  tr_translation :: string
  tr_pronunciation :: string
  tip :: string

record StudyCardEntry =
  card_term :: string
  card_translation :: string

record StudyCardHint =
  vocabulary :: "StudyCardEntry list"
  phrases :: "StudyCardEntry list"

record rehearsal =
  r_location :: "real \<times> real"
  r_title :: string
  r_task :: string

section \<open>The transcript reconciler\<close>

text \<open>
  The updater \<^verbatim>\<open>onTranscriptUpdate\<close> passes to \<^verbatim>\<open>setTranscript\<close>: the last entry is
  replaced by one with the new text appended when it exists, has the speaker of the new
  fragment and is not final; otherwise the fragment is pushed.
\<close>

definition onTranscriptUpdate :: "Transcript \<Rightarrow> Transcript list \<Rightarrow> Transcript list" where
  "onTranscriptUpdate newTranscript prev =
     (let updated = prev;
          lastEntry = (if length updated > 0 then Some (updated ! (length updated - 1)) else None)
      in case lastEntry of
           Some lastEntry' \<Rightarrow>
             if speaker lastEntry' = speaker newTranscript \<and> \<not> isFinal lastEntry'
             then updated[length updated - 1 :=
                    lastEntry'\<lparr>text' := text' lastEntry' @ text' newTranscript\<rparr>]
             else updated @ [newTranscript]
         | None \<Rightarrow> updated @ [newTranscript])"

text \<open>The updater of \<^verbatim>\<open>onTurnComplete\<close>: every entry becomes final.\<close>

definition onTurnComplete :: "Transcript list \<Rightarrow> Transcript list" where
  "onTurnComplete prev = map (\<lambda>t. t\<lparr>isFinal := True\<rparr>) prev"

text \<open>
  The transcript part of \<^verbatim>\<open>onmessage\<close> in \<^verbatim>\<open>startConversation\<close>: a server message may
  carry a fragment of the user's speech, a fragment of the agent's speech and the
  turn-complete mark, handled in this order; fragments are built with \<^verbatim>\<open>isFinal: false\<close>.
\<close>

record LiveServerMessage =
  inputTranscription :: "string option"
  outputTranscription :: "string option"
  inlineAudio :: "string option"
  turnComplete :: bool

definition fragment :: "speaker \<Rightarrow> string \<Rightarrow> Transcript" where
  "fragment who t = \<lparr>speaker = who, text' = t, isFinal = False, imageUrl = None\<rparr>"

definition onmessage_transcript :: "LiveServerMessage \<Rightarrow> Transcript list \<Rightarrow> Transcript list" where
  "onmessage_transcript message prev =
     (let t1 = (case inputTranscription message of
                  Some t \<Rightarrow> onTranscriptUpdate (fragment User t) prev | None \<Rightarrow> prev);
          t2 = (case outputTranscription message of
                  Some t \<Rightarrow> onTranscriptUpdate (fragment Npc t) t1 | None \<Rightarrow> t1)
      in if turnComplete message then onTurnComplete t2 else t2)"

section \<open>The outbound stream\<close>

text \<open>
  \<^verbatim>\<open>processor.onaudioprocess\<close> converts each captured frame with \<^verbatim>\<open>createBlob\<close> and
  registers \<^verbatim>\<open>session.sendRealtimeInput({ media: pcmBlob })\<close> as a reaction of the promise
  \<^verbatim>\<open>startConversation\<close> returned.  The promise and the job queue belong to the host: a
  reaction registered on a pending promise waits in the promise's list, in registration
  order; fulfilment moves the list to the job queue; a reaction registered on a fulfilled
  promise is queued at once; a rejected promise runs none of these reactions.  Jobs run
  first in, first out; one run is one call of \<^verbatim>\<open>sendRealtimeInput\<close>.
\<close>

datatype promise_state = Pending | Fulfilled | Rejected

record RealtimeInput =
  media :: Blob

record outbound =
  sessionPromise :: promise_state
  reactions :: "RealtimeInput list"
  jobs :: "RealtimeInput list"
  delivered :: "RealtimeInput list"

definition outbound_init :: outbound where
  "outbound_init = \<lparr>sessionPromise = Pending, reactions = [], jobs = [], delivered = []\<rparr>"

definition onaudioprocess :: "(string \<Rightarrow> string) \<Rightarrow> js_number list \<Rightarrow> outbound \<Rightarrow> outbound" where
  "onaudioprocess btoa inputData ob =
     (let pcmBlob = createBlob btoa inputData;
          send = \<lparr>media = pcmBlob\<rparr>
      in case sessionPromise ob of
           Pending \<Rightarrow> ob\<lparr>reactions := reactions ob @ [send]\<rparr>
         | Fulfilled \<Rightarrow> ob\<lparr>jobs := jobs ob @ [send]\<rparr>
         | Rejected \<Rightarrow> ob)"

definition channel_open :: "outbound \<Rightarrow> outbound" where
  "channel_open ob =
     (case sessionPromise ob of
        Pending \<Rightarrow> ob\<lparr>sessionPromise := Fulfilled, jobs := jobs ob @ reactions ob, reactions := []\<rparr>
      | Fulfilled \<Rightarrow> ob
      | Rejected \<Rightarrow> ob)"

definition channel_fail :: "outbound \<Rightarrow> outbound" where
  "channel_fail ob =
     (case sessionPromise ob of
        Pending \<Rightarrow> ob\<lparr>sessionPromise := Rejected, reactions := []\<rparr>
      | Fulfilled \<Rightarrow> ob
      | Rejected \<Rightarrow> ob)"

definition run_job :: "outbound \<Rightarrow> outbound" where
  "run_job ob =
     (case jobs ob of
        [] \<Rightarrow> ob
      | send # rest \<Rightarrow> ob\<lparr>jobs := rest, delivered := delivered ob @ [send]\<rparr>)"

datatype stream_event = AudioProcess "js_number list" | ChannelOpen | ChannelFail | RunJob

fun stream_step :: "(string \<Rightarrow> string) \<Rightarrow> outbound \<Rightarrow> stream_event \<Rightarrow> outbound" where
  "stream_step btoa ob (AudioProcess inputData) = onaudioprocess btoa inputData ob"
| "stream_step btoa ob ChannelOpen = channel_open ob"
| "stream_step btoa ob ChannelFail = channel_fail ob"
| "stream_step btoa ob RunJob = run_job ob"

definition run_stream :: "(string \<Rightarrow> string) \<Rightarrow> stream_event list \<Rightarrow> outbound \<Rightarrow> outbound" where
  "run_stream btoa events ob = foldl (stream_step btoa) ob events"

text \<open>The frames handed to the stream by a run, as the messages they are to become.\<close>

fun handed :: "(string \<Rightarrow> string) \<Rightarrow> stream_event list \<Rightarrow> RealtimeInput list" where
  "handed btoa [] = []"
| "handed btoa (AudioProcess inputData # events) =
     \<lparr>media = createBlob btoa inputData\<rparr> # handed btoa events"
| "handed btoa (ChannelOpen # events) = handed btoa events"
| "handed btoa (ChannelFail # events) = handed btoa events"
| "handed btoa (RunJob # events) = handed btoa events"

text \<open>
  What every run from the initial state keeps: while the promise is pending nothing is
  queued or delivered and the reactions are the frames handed over; once it is fulfilled the
  delivered messages followed by the queued ones are the frames handed over; a rejected
  promise has delivered nothing.
\<close>

definition stream_inv :: "(string \<Rightarrow> string) \<Rightarrow> stream_event list \<Rightarrow> outbound \<Rightarrow> bool" where
  "stream_inv btoa events ob =
     (case sessionPromise ob of
        Pending \<Rightarrow> delivered ob = [] \<and> jobs ob = [] \<and> reactions ob = handed btoa events
      | Fulfilled \<Rightarrow> reactions ob = [] \<and> delivered ob @ jobs ob = handed btoa events
      | Rejected \<Rightarrow> delivered ob = [] \<and> jobs ob = [] \<and> reactions ob = [])"

section \<open>The component state\<close>

text \<open>
  The values React keeps for the component (\<^verbatim>\<open>useState\<close>).  A handler created during a
  render closes over the values of that render; such a closure is modelled by the
  \<open>react_state\<close> it captured, passed to the handler next to the current state.
\<close>

record react_state =
  status :: ConversationStatus
  scenario :: "Scenario option"
  transcript :: "Transcript list"
  result :: "ConversationResult option"
  error :: "string option"
  isNpcSpeaking :: bool
  isRecording :: bool
  translation :: "(string \<times> TranslationResult) option"
  hint :: "Hint option"
  studyCardHint :: "StudyCardHint option"
  completedRehearsals :: "rehearsal list"

text \<open>
  The host's objects the refs point to.  Each carries what decides the outcome of the
  calls the component makes on it: whether the call raises (or, for a promise, rejects).
\<close>

record LiveSession =
  session_close_throws :: bool

record MediaStreamTrack =
  track_id :: nat
  track_stop_throws :: bool

record MediaStream =
  tracks :: "MediaStreamTrack list"

datatype AudioContextState = Suspended | Running | Closed

record AudioContext =
  ctx_state :: AudioContextState
  resume_rejects :: bool
  close_rejects :: bool

record AudioNode =
  disconnect_throws :: bool

record AudioBufferSourceNode =
  source_id :: nat
  source_stop_throws :: bool

record StreetView =
  sv_visible :: bool
  sv_throws :: bool
  sv_location :: "(real \<times> real) option"

text \<open>The calls on host objects that completed, and the requests sent to collaborators.\<close>

datatype host_call =
  SessionClose | TrackStop nat | ProcessorDisconnect | MediaSourceDisconnect
  | InputContextClose | OutputContextClose | SourceStop nat

datatype request =
  SummarizeConversation Scenario "Transcript list"
  | GenerateHint Scenario "Transcript list"
  | GenerateMapMarkerTitle string Scenario "rehearsal list" "real \<times> real"
  | GenerateSpeech string string

text \<open>
  The refs (\<^verbatim>\<open>useRef\<close>), the pending inactivity timer and the callbacks registered with
  the live channel (each a closure, kept as the render it captured), the console, and the two
  logs above.  \<^verbatim>\<open>audioSourcesRef\<close> is a \<^verbatim>\<open>Set\<close>: a list without repetition, in
  insertion order, which is the order \<^verbatim>\<open>forEach\<close> visits.  \<open>pending_catch\<close> holds the
  \<^verbatim>\<open>.catch\<close> handlers of promises that reject: such a handler runs in a later job, after
  the call that attached it has returned, and is kept here as the line it will log.
\<close>

record app_state =
  react :: react_state
  liveSessionRef :: "LiveSession option"
  inputAudioContextRef :: "AudioContext option"
  outputAudioContextRef :: "AudioContext option"
  nextStartTimeRef :: js_number
  scriptProcessorRef :: "AudioNode option"
  localStreamRef :: "MediaStream option"
  mediaStreamSourceRef :: "AudioNode option"
  audioSourcesRef :: "AudioBufferSourceNode list"
  streetViewInstance :: "StreetView option"
  inactivityTimer :: "react_state option"
  sessionCallbacks :: "react_state option"
  console :: "string list"
  pending_catch :: "string list"
  host_calls :: "host_call list"
  requests :: "request list"

text \<open>How a call ends: it returns, or an exception (a rejection) leaves it unhandled.\<close>

datatype completion = Normal | Throw

definition setStatus :: "ConversationStatus \<Rightarrow> app_state \<Rightarrow> app_state" where
  "setStatus v s = s\<lparr>react := (react s)\<lparr>status := v\<rparr>\<rparr>"

definition setScenario :: "Scenario option \<Rightarrow> app_state \<Rightarrow> app_state" where
  "setScenario v s = s\<lparr>react := (react s)\<lparr>scenario := v\<rparr>\<rparr>"

definition setTranscript :: "Transcript list \<Rightarrow> app_state \<Rightarrow> app_state" where
  "setTranscript v s = s\<lparr>react := (react s)\<lparr>transcript := v\<rparr>\<rparr>"

definition setResult :: "ConversationResult option \<Rightarrow> app_state \<Rightarrow> app_state" where
  "setResult v s = s\<lparr>react := (react s)\<lparr>result := v\<rparr>\<rparr>"

definition setError :: "string option \<Rightarrow> app_state \<Rightarrow> app_state" where
  "setError v s = s\<lparr>react := (react s)\<lparr>error := v\<rparr>\<rparr>"

definition setIsNpcSpeaking :: "bool \<Rightarrow> app_state \<Rightarrow> app_state" where
  "setIsNpcSpeaking v s = s\<lparr>react := (react s)\<lparr>isNpcSpeaking := v\<rparr>\<rparr>"

definition setIsRecording :: "bool \<Rightarrow> app_state \<Rightarrow> app_state" where
  "setIsRecording v s = s\<lparr>react := (react s)\<lparr>isRecording := v\<rparr>\<rparr>"

definition setTranslation :: "(string \<times> TranslationResult) option \<Rightarrow> app_state \<Rightarrow> app_state" where
  "setTranslation v s = s\<lparr>react := (react s)\<lparr>translation := v\<rparr>\<rparr>"

definition setHint :: "Hint option \<Rightarrow> app_state \<Rightarrow> app_state" where
  "setHint v s = s\<lparr>react := (react s)\<lparr>hint := v\<rparr>\<rparr>"

definition setStudyCardHint :: "StudyCardHint option \<Rightarrow> app_state \<Rightarrow> app_state" where
  "setStudyCardHint v s = s\<lparr>react := (react s)\<lparr>studyCardHint := v\<rparr>\<rparr>"

definition setCompletedRehearsals :: "rehearsal list \<Rightarrow> app_state \<Rightarrow> app_state" where
  "setCompletedRehearsals v s = s\<lparr>react := (react s)\<lparr>completedRehearsals := v\<rparr>\<rparr>"

definition console_error :: "string \<Rightarrow> app_state \<Rightarrow> app_state" where
  "console_error msg s = s\<lparr>console := console s @ [msg]\<rparr>"

text \<open>Attaching a \<^verbatim>\<open>.catch\<close> handler to a promise that rejects, and the later job that runs
  the handlers attached so far.\<close>

definition catch_later :: "string \<Rightarrow> app_state \<Rightarrow> app_state" where
  "catch_later msg s = s\<lparr>pending_catch := pending_catch s @ [msg]\<rparr>"

definition run_catch_handlers :: "app_state \<Rightarrow> app_state" where
  "run_catch_handlers s = s\<lparr>console := console s @ pending_catch s, pending_catch := []\<rparr>"

definition host_call :: "host_call \<Rightarrow> app_state \<Rightarrow> app_state" where
  "host_call c s = s\<lparr>host_calls := host_calls s @ [c]\<rparr>"

definition send_request :: "request \<Rightarrow> app_state \<Rightarrow> app_state" where
  "send_request r s = s\<lparr>requests := requests s @ [r]\<rparr>"

text \<open>The component as mounted: nothing acquired, status \<open>Idle\<close>.\<close>

definition initial_react :: react_state where
  "initial_react =
     \<lparr>status = Idle, scenario = None, transcript = [], result = None, error = None,
      isNpcSpeaking = False, isRecording = False, translation = None, hint = None,
      studyCardHint = None, completedRehearsals = []\<rparr>"

definition initial_state :: app_state where
  "initial_state =
     \<lparr>react = initial_react, liveSessionRef = None, inputAudioContextRef = None,
      outputAudioContextRef = None, nextStartTimeRef = Finite 0, scriptProcessorRef = None,
      localStreamRef = None, mediaStreamSourceRef = None, audioSourcesRef = [],
      streetViewInstance = None, inactivityTimer = None, sessionCallbacks = None,
      console = [], pending_catch = [], host_calls = [], requests = []\<rparr>"

section \<open>Playback scheduling\<close>

text \<open>
  What one call of \<^verbatim>\<open>playAudioChunk\<close> did with its chunk: \<open>Scheduled start d\<close> is the call
  \<^verbatim>\<open>source.start(start)\<close> on a buffer of duration \<open>d\<close>; \<open>Skipped\<close> is a return without playing
  (no output context, an empty chunk, or a failure caught and logged); \<open>ResumeRejected\<close> is the
  rejection of \<^verbatim>\<open>audioContext.resume()\<close>, awaited outside the \<^verbatim>\<open>try\<close>.
\<close>

datatype play_outcome = Scheduled real js_number | Skipped | ResumeRejected

text \<open>
  \<^verbatim>\<open>source.start(when)\<close> takes a finite time that is not negative: it raises a TypeError on
  a NaN or an infinity and a RangeError on a negative time.
\<close>

fun source_start :: "js_number \<Rightarrow> js_error + real" where
  "source_start (Finite t) = (if t < 0 then Inl RangeError else Inr t)"
| "source_start x = Inl TypeError"

definition set_add :: "'a \<Rightarrow> 'a list \<Rightarrow> 'a list" where
  "set_add x xs = (if x \<in> set xs then xs else xs @ [x])"

definition set_delete :: "'a \<Rightarrow> 'a list \<Rightarrow> 'a list" where
  "set_delete x xs = filter (\<lambda>y. y \<noteq> x) xs"

text \<open>
  \<^verbatim>\<open>playAudioChunk\<close>, run to its end in one step.  The host supplies \<^verbatim>\<open>atob\<close>, the reading of
  \<^verbatim>\<open>audioContext.currentTime\<close> (a binary64 value that is not negative) and the node
  \<^verbatim>\<open>createBufferSource\<close> returns.  The
  assignment of \<^verbatim>\<open>Math.max\<close> to \<^verbatim>\<open>nextStartTimeRef\<close> and the addition of the source to the
  set come before \<^verbatim>\<open>source.start\<close>, so they stay when that call raises; the update
  \<^verbatim>\<open>nextStartTimeRef.current += audioBuffer.duration\<close> is a binary64 sum.
\<close>

definition playAudioChunk ::
  "(string \<Rightarrow> string option) \<Rightarrow> real \<Rightarrow> AudioBufferSourceNode \<Rightarrow> string \<Rightarrow> app_state
     \<Rightarrow> play_outcome \<times> app_state" where
  "playAudioChunk atob currentTime source base64Audio s =
     (case outputAudioContextRef s of
        None \<Rightarrow> (Skipped, s)
      | Some audioContext \<Rightarrow>
          if base64Audio = [] then (Skipped, s)
          else if ctx_state audioContext = Suspended \<and> resume_rejects audioContext
          then (ResumeRejected, s)
          else
            let s1 = (if ctx_state audioContext = Suspended
                      then s\<lparr>outputAudioContextRef := Some (audioContext\<lparr>ctx_state := Running\<rparr>)\<rparr>
                      else s)
            in (case decode atob base64Audio of
                  Inl e \<Rightarrow> (Skipped, console_error ''Failed to play audio chunk:'' s1)
                | Inr audioBytes \<Rightarrow>
                    (case decodeAudioData audioBytes 24000 1 of
                       Inl e \<Rightarrow> (Skipped, console_error ''Failed to play audio chunk:'' s1)
                     | Inr audioBuffer \<Rightarrow>
                         (let start = Math_max (nextStartTimeRef s1) (Finite currentTime);
                              s2 = s1\<lparr>nextStartTimeRef := start,
                                      audioSourcesRef := set_add source (audioSourcesRef s1)\<rparr>
                          in (case source_start start of
                                Inl e \<Rightarrow> (Skipped, console_error ''Failed to play audio chunk:'' s2)
                              | Inr t \<Rightarrow>
                                  (Scheduled t (duration audioBuffer),
                                   s2\<lparr>nextStartTimeRef :=
                                        plus_number start (duration audioBuffer)\<rparr>))))))"

text \<open>The \<^verbatim>\<open>onended\<close> handler \<^verbatim>\<open>playAudioChunk\<close> installs on a source.\<close>

definition onended :: "AudioBufferSourceNode \<Rightarrow> app_state \<Rightarrow> app_state" where
  "onended source s =
     (let s1 = s\<lparr>audioSourcesRef := set_delete source (audioSourcesRef s)\<rparr>
      in if length (audioSourcesRef s1) = 0 then setIsNpcSpeaking False s1 else s1)"

text \<open>
  A run of inbound chunks: each call comes with the clock reading and the node the host gave
  it, and is scheduled in arrival order.
\<close>

fun play_chunks ::
  "(string \<Rightarrow> string option) \<Rightarrow> (real \<times> AudioBufferSourceNode \<times> string) list \<Rightarrow> app_state
     \<Rightarrow> play_outcome list \<times> app_state" where
  "play_chunks atob [] s = ([], s)"
| "play_chunks atob ((currentTime, source, base64Audio) # rest) s =
     (case playAudioChunk atob currentTime source base64Audio s of
        (outcome, s1) \<Rightarrow>
          (case play_chunks atob rest s1 of
             (outcomes, s2) \<Rightarrow> (outcome # outcomes, s2)))"

section \<open>Teardown\<close>

text \<open>
  \<^verbatim>\<open>cleanupAudioAndSession\<close>, step by step in source order.  A step written inside
  \<^verbatim>\<open>try\<close>/\<^verbatim>\<open>catch\<close> logs its failure at once and goes on.  \<^verbatim>\<open>close()\<close> on an audio
  context returns a promise: the call itself raises nothing, and a rejection is logged by the
  \<^verbatim>\<open>.catch\<close> handler in a later job.  The loop over the media tracks is written without a
  handler, so a raising \<^verbatim>\<open>track.stop()\<close> would end the loop and leave the function.
\<close>

definition close_live_session :: "app_state \<Rightarrow> app_state" where
  "close_live_session s =
     (case liveSessionRef s of
        None \<Rightarrow> s
      | Some session \<Rightarrow>
          if session_close_throws session
          then console_error ''Error closing live session:'' s
          else host_call SessionClose s)
     \<lparr>liveSessionRef := None\<rparr>"

fun stop_tracks :: "MediaStreamTrack list \<Rightarrow> app_state \<Rightarrow> completion \<times> app_state" where
  "stop_tracks [] s = (Normal, s)"
| "stop_tracks (track # rest) s =
     (if track_stop_throws track then (Throw, s)
      else stop_tracks rest (host_call (TrackStop (track_id track)) s))"

definition stop_local_stream :: "app_state \<Rightarrow> completion \<times> app_state" where
  "stop_local_stream s =
     (case localStreamRef s of
        None \<Rightarrow> (Normal, s)
      | Some stream \<Rightarrow>
          (case stop_tracks (tracks stream) s of
             (Normal, s1) \<Rightarrow> (Normal, s1\<lparr>localStreamRef := None\<rparr>)
           | (Throw, s1) \<Rightarrow> (Throw, s1)))"

definition disconnect_script_processor :: "app_state \<Rightarrow> app_state" where
  "disconnect_script_processor s =
     (case scriptProcessorRef s of
        None \<Rightarrow> s
      | Some node \<Rightarrow>
          if disconnect_throws node
          then console_error ''Error disconnecting script processor:'' s
          else host_call ProcessorDisconnect s)
     \<lparr>scriptProcessorRef := None\<rparr>"

definition disconnect_media_stream_source :: "app_state \<Rightarrow> app_state" where
  "disconnect_media_stream_source s =
     (case mediaStreamSourceRef s of
        None \<Rightarrow> s
      | Some node \<Rightarrow>
          if disconnect_throws node
          then console_error ''Error disconnecting media stream source:'' s
          else host_call MediaSourceDisconnect s)
     \<lparr>mediaStreamSourceRef := None\<rparr>"

definition close_input_context :: "app_state \<Rightarrow> app_state" where
  "close_input_context s =
     (case inputAudioContextRef s of
        None \<Rightarrow> s
      | Some ctx \<Rightarrow>
          if ctx_state ctx \<noteq> Closed
          then (if close_rejects ctx
                then catch_later ''Error closing input audio context:'' s
                else host_call InputContextClose s)
          else s)
     \<lparr>inputAudioContextRef := None\<rparr>"

text \<open>
  \<^verbatim>\<open>audioSourcesRef.current.forEach(source => source.stop())\<close> inside one \<^verbatim>\<open>try\<close>: the
  first raising \<^verbatim>\<open>stop\<close> ends the loop and is logged.
\<close>

fun stop_sources :: "AudioBufferSourceNode list \<Rightarrow> app_state \<Rightarrow> app_state" where
  "stop_sources [] s = s"
| "stop_sources (source # rest) s =
     (if source_stop_throws source then console_error ''Error stopping audio sources:'' s
      else stop_sources rest (host_call (SourceStop (source_id source)) s))"

definition stop_all_sources :: "app_state \<Rightarrow> app_state" where
  "stop_all_sources s = (stop_sources (audioSourcesRef s) s)\<lparr>audioSourcesRef := []\<rparr>"

definition close_output_context :: "app_state \<Rightarrow> app_state" where
  "close_output_context s =
     (case outputAudioContextRef s of
        None \<Rightarrow> s
      | Some ctx \<Rightarrow>
          if ctx_state ctx \<noteq> Closed
          then (if close_rejects ctx
                then catch_later ''Error closing output audio context:'' s
                else host_call OutputContextClose s)
          else s)
     \<lparr>outputAudioContextRef := None\<rparr>"

definition cleanupAudioAndSession :: "app_state \<Rightarrow> completion \<times> app_state" where
  "cleanupAudioAndSession s =
     (case stop_local_stream (close_live_session s) of
        (Throw, s1) \<Rightarrow> (Throw, s1)
      | (Normal, s1) \<Rightarrow>
          let s2 = disconnect_script_processor s1;
              s3 = disconnect_media_stream_source s2;
              s4 = close_input_context s3;
              s5 = stop_all_sources s4;
              s6 = close_output_context s5
          in (Normal, setIsNpcSpeaking False (setIsRecording False s6)))"

text \<open>Calling the reaper \<open>n\<close> times in succession; an unhandled failure ends the run.\<close>

fun cleanup_times :: "nat \<Rightarrow> app_state \<Rightarrow> completion \<times> app_state" where
  "cleanup_times 0 s = (Normal, s)"
| "cleanup_times (Suc n) s =
     (case cleanupAudioAndSession s of
        (Throw, s1) \<Rightarrow> (Throw, s1)
      | (Normal, s1) \<Rightarrow> cleanup_times n s1)"

text \<open>The identifiers of the sources a log of host calls stopped, in order.\<close>

fun stopped_sources :: "host_call list \<Rightarrow> nat list" where
  "stopped_sources [] = []"
| "stopped_sources (SourceStop i # calls) = i # stopped_sources calls"
| "stopped_sources (c # calls) = stopped_sources calls"

text \<open>
  A session whose resources are all released, and a stream none of whose tracks raises when
  stopped (\<^verbatim>\<open>MediaStreamTrack.stop()\<close> is specified to raise nothing).  \<open>holds_on p obj\<close>
  says that the object a ref points to is there and satisfies \<open>p\<close>; \<open>logged\<close> is the line a
  failed step leaves, \<open>called\<close> the entry a completed call leaves in the log of host calls.
\<close>

definition released :: "app_state \<Rightarrow> bool" where
  "released s \<longleftrightarrow>
     liveSessionRef s = None \<and> localStreamRef s = None \<and> scriptProcessorRef s = None \<and>
     mediaStreamSourceRef s = None \<and> inputAudioContextRef s = None \<and>
     audioSourcesRef s = [] \<and> outputAudioContextRef s = None \<and>
     \<not> isRecording (react s) \<and> \<not> isNpcSpeaking (react s)"

definition tracks_stop_quietly :: "app_state \<Rightarrow> bool" where
  "tracks_stop_quietly s =
     (case localStreamRef s of
        None \<Rightarrow> True
      | Some stream \<Rightarrow> \<not> list_ex track_stop_throws (tracks stream))"

definition holds_on :: "('a \<Rightarrow> bool) \<Rightarrow> 'a option \<Rightarrow> bool" where
  "holds_on p obj = (case obj of None \<Rightarrow> False | Some x \<Rightarrow> p x)"

definition logged :: "bool \<Rightarrow> string \<Rightarrow> string list" where
  "logged failed msg = (if failed then [msg] else [])"

definition called :: "bool \<Rightarrow> host_call \<Rightarrow> host_call list" where
  "called completed c = (if completed then [c] else [])"

section \<open>Session control\<close>

definition handleCloseRehearsal :: "app_state \<Rightarrow> completion \<times> app_state" where
  "handleCloseRehearsal s =
     (case cleanupAudioAndSession s of
        (Throw, s1) \<Rightarrow> (Throw, s1)
      | (Normal, s1) \<Rightarrow>
          let s2 = (case streetViewInstance s1 of
                      None \<Rightarrow> s1
                    | Some sv \<Rightarrow>
                        if sv_throws sv
                        then console_error ''Failed to hide Street View, likely a network issue. Resetting state anyway.'' s1
                        else if sv_visible sv
                        then s1\<lparr>streetViewInstance := Some (sv\<lparr>sv_visible := False\<rparr>)\<rparr>
                        else s1)
          in (Normal,
              setStudyCardHint None (setError None (setResult None (setTranscript []
                (setScenario None (setStatus Idle s2)))))))"

text \<open>
  The part of \<^verbatim>\<open>handleEndConversation\<close> that names the map marker.  The inner \<^verbatim>\<open>try\<close> logs
  every failure: no Street View instance, a failing call on it, a rejected title request.
\<close>

definition save_completed_rehearsal ::
  "(string + string) \<Rightarrow> ConversationResult \<Rightarrow> Scenario \<Rightarrow> react_state \<Rightarrow> app_state
     \<Rightarrow> app_state" where
  "save_completed_rehearsal title summaryResult sc closure s =
     (case streetViewInstance s of
        None \<Rightarrow> console_error ''Failed to generate map marker title:'' s
      | Some sv \<Rightarrow>
          if sv_throws sv then console_error ''Failed to generate map marker title:'' s
          else
            (case sv_location sv of
               None \<Rightarrow> s
             | Some currentLocation \<Rightarrow>
                 let s1 = send_request
                            (GenerateMapMarkerTitle (finalSummary summaryResult) sc
                               (completedRehearsals closure) currentLocation) s
                 in (case title of
                       Inl e \<Rightarrow> console_error ''Failed to generate map marker title:'' s1
                     | Inr markerTitle \<Rightarrow>
                         setCompletedRehearsals
                           (completedRehearsals (react s1) @
                              [\<lparr>r_location = currentLocation, r_title = markerTitle,
                                r_task = task sc\<rparr>]) s1)))"

text \<open>
  \<^verbatim>\<open>handleEndConversation\<close>, run to its end; the collaborators' answers (the summary, the
  marker title; \<open>Inl\<close> a failure) are given.  \<open>closure\<close> holds the \<^verbatim>\<open>status\<close>,
  \<^verbatim>\<open>scenario\<close>, \<^verbatim>\<open>transcript\<close> and \<^verbatim>\<open>completedRehearsals\<close> the callback closed over.
\<close>

definition handleEndConversation ::
  "(string + ConversationResult) \<Rightarrow> (string + string) \<Rightarrow> react_state \<Rightarrow> app_state
     \<Rightarrow> completion \<times> app_state" where
  "handleEndConversation summary title closure s =
     (if status closure = Summarizing then (Normal, s)
      else
        (case cleanupAudioAndSession (setStatus Summarizing s) of
           (Throw, s1) \<Rightarrow> (Throw, s1)
         | (Normal, s1) \<Rightarrow>
             (case scenario closure of
                None \<Rightarrow> handleCloseRehearsal s1
              | Some sc \<Rightarrow>
                  if length (transcript closure) = 0 then handleCloseRehearsal s1
                  else
                    (let s2 = send_request (SummarizeConversation sc (transcript closure)) s1
                     in (case summary of
                           Inl e \<Rightarrow>
                             (Normal,
                              setStatus Error
                                (setError (Some ''Failed to get feedback on the conversation.'')
                                   (console_error ''Summarization failed:'' s2)))
                         | Inr summaryResult \<Rightarrow>
                             (Normal,
                              save_completed_rehearsal title summaryResult sc closure
                                (setStatus PausedForFeedback
                                   (setResult (Some summaryResult) s2))))))))"

text \<open>\<^verbatim>\<open>String.prototype.includes\<close>.\<close>

fun string_includes :: "string \<Rightarrow> string \<Rightarrow> bool" where
  "string_includes [] sub = (sub = [])"
| "string_includes (c # cs) sub = (prefix sub (c # cs) \<or> string_includes cs sub)"

text \<open>What \<^verbatim>\<open>handleBeginConversation\<close> receives from the host and the collaborators.\<close>

record begin_env =
  getUserMedia_result :: "string + MediaStream"
  inContext :: AudioContext
  sourceNode :: AudioNode
  processorNode :: AudioNode
  outContext :: AudioContext
  connect_result :: "string + LiveSession"
  generateSpeech_result :: "string + string option"
  env_atob :: "string \<Rightarrow> string option"
  env_currentTime :: real
  env_bufferSource :: AudioBufferSourceNode

text \<open>The outer \<^verbatim>\<open>catch\<close> of \<^verbatim>\<open>handleBeginConversation\<close>.\<close>

definition begin_failed :: "string \<Rightarrow> app_state \<Rightarrow> app_state" where
  "begin_failed message s =
     (let s1 = console_error ''Failed to start conversation:'' s;
          s2 = (if string_includes message ''quota''
                then setError
                       (Some ''API quota exceeded. Please check your billing status or wait and try again.'') s1
                else setError
                       (Some (if message = []
                              then ''Failed to start conversation. Please check microphone permissions and your network connection.''
                              else message)) s1)
      in setStatus Error s2)"

definition opening_line :: "begin_env \<Rightarrow> bool \<Rightarrow> Scenario \<Rightarrow> app_state \<Rightarrow> app_state" where
  "opening_line env isContinuing sc s =
     (case openingLine sc of
        None \<Rightarrow> s
      | Some line \<Rightarrow>
          if conversationStarter sc = Npc \<and> line \<noteq> [] \<and> \<not> isContinuing
          then
            let s1 = setIsNpcSpeaking True s;
                s2 = setTranscript
                       [\<lparr>speaker = Npc, text' = line, isFinal = True, imageUrl = None\<rparr>] s1;
                s3 = send_request (GenerateSpeech line (voice (npcProfile sc))) s2;
                no_audio = setIsNpcSpeaking False
                             (console_error ''NPC opening line audio generation returned no data.'' s3)
            in (case generateSpeech_result env of
                  Inl e \<Rightarrow>
                    setIsNpcSpeaking False
                      (console_error ''Failed to generate or play NPC opening line:'' s3)
                | Inr None \<Rightarrow> no_audio
                | Inr (Some audioData) \<Rightarrow>
                    if audioData = [] then no_audio
                    else
                      (case playAudioChunk (env_atob env) (env_currentTime env)
                              (env_bufferSource env) audioData s3 of
                         (ResumeRejected, s4) \<Rightarrow>
                           setIsNpcSpeaking False
                             (console_error ''Failed to generate or play NPC opening line:'' s4)
                       | (Scheduled start d, s4) \<Rightarrow> s4
                       | (Skipped, s4) \<Rightarrow> s4))
          else s)"

text \<open>
  \<^verbatim>\<open>handleBeginConversation\<close>, run to its end.  The callbacks it hands to
  \<^verbatim>\<open>startConversation\<close> are created inside this call, so they close over the values of the
  render this handler belongs to (\<open>closure\<close>): these are what \<open>sessionCallbacks\<close> records.
\<close>

definition handleBeginConversation ::
  "begin_env \<Rightarrow> bool \<Rightarrow> react_state \<Rightarrow> app_state \<Rightarrow> app_state" where
  "handleBeginConversation env isContinuing closure s =
     (case scenario closure of
        None \<Rightarrow> s
      | Some sc \<Rightarrow>
          let s1 = setStatus Ready s;
              s2 = (if \<not> isContinuing then setTranscript [] s1 else s1);
              s3 = setTranslation None s2
          in (case getUserMedia_result env of
                Inl message \<Rightarrow> begin_failed message s3
              | Inr stream \<Rightarrow>
                  (let s4 = s3\<lparr>localStreamRef := Some stream,
                              inputAudioContextRef := Some (inContext env),
                              mediaStreamSourceRef := Some (sourceNode env),
                              scriptProcessorRef := Some (processorNode env),
                              outputAudioContextRef := Some (outContext env),
                              nextStartTimeRef := Finite 0,
                              sessionCallbacks := Some closure\<rparr>
                   in (case connect_result env of
                         Inl message \<Rightarrow> begin_failed message s4
                       | Inr session \<Rightarrow>
                           opening_line env isContinuing sc
                             (setStatus Active (s4\<lparr>liveSessionRef := Some session\<rparr>))))))"

text \<open>
  The callbacks of the live channel.  \<^verbatim>\<open>onClose\<close> reads \<^verbatim>\<open>status\<close> and calls
  \<^verbatim>\<open>handleEndConversation\<close> through the closure it was created in.
\<close>

definition onClose ::
  "(string + ConversationResult) \<Rightarrow> (string + string) \<Rightarrow> react_state \<Rightarrow> app_state
     \<Rightarrow> completion \<times> app_state" where
  "onClose summary title closure s =
     (let s1 = console_error ''Conversation closed by server.'' s
      in if status closure = Active then handleEndConversation summary title closure s1
         else cleanupAudioAndSession s1)"

definition onError :: "string \<Rightarrow> app_state \<Rightarrow> completion \<times> app_state" where
  "onError message s =
     cleanupAudioAndSession
       (setStatus Error (setError (Some message) (console_error ''Conversation error:'' s)))"

text \<open>
  \<^verbatim>\<open>onNpcAudio\<close>: the speaking flag is raised unless the closure saw it raised, and the
  chunk goes to \<^verbatim>\<open>playAudioChunk\<close>.
\<close>

definition onNpcAudio ::
  "(string \<Rightarrow> string option) \<Rightarrow> real \<Rightarrow> AudioBufferSourceNode \<Rightarrow> react_state \<Rightarrow> string
     \<Rightarrow> app_state \<Rightarrow> play_outcome \<times> app_state" where
  "onNpcAudio atob currentTime source closure audioData s =
     playAudioChunk atob currentTime source audioData
       (if \<not> isNpcSpeaking closure then setIsNpcSpeaking True s else s)"

text \<open>The channel reports close: the registered \<^verbatim>\<open>onClose\<close> runs.\<close>

definition channel_closed ::
  "(string + ConversationResult) \<Rightarrow> (string + string) \<Rightarrow> app_state \<Rightarrow> completion \<times> app_state" where
  "channel_closed summary title s =
     (case sessionCallbacks s of
        None \<Rightarrow> (Normal, s)
      | Some closure \<Rightarrow> onClose summary title closure s)"

text \<open>Whether a request log holds a call of the summarization collaborator.\<close>

fun is_summarize :: "request \<Rightarrow> bool" where
  "is_summarize (SummarizeConversation sc t) = True"
| "is_summarize (GenerateHint sc t) = False"
| "is_summarize (GenerateMapMarkerTitle summary sc past loc) = False"
| "is_summarize (GenerateSpeech line v) = False"

section \<open>The inactivity watchdog\<close>

definition clearInactivityTimer :: "app_state \<Rightarrow> app_state" where
  "clearInactivityTimer s = s\<lparr>inactivityTimer := None\<rparr>"

text \<open>
  \<^verbatim>\<open>startInactivityTimer\<close> of a render: the timer it sets holds a callback closing over that
  render's \<^verbatim>\<open>status\<close>, \<^verbatim>\<open>scenario\<close> and \<^verbatim>\<open>transcript\<close>.
\<close>

definition startInactivityTimer :: "react_state \<Rightarrow> app_state \<Rightarrow> app_state" where
  "startInactivityTimer closure s = (clearInactivityTimer s)\<lparr>inactivityTimer := Some closure\<rparr>"

text \<open>The timer's callback; the hint collaborator's answer is given.\<close>

definition inactivity_callback ::
  "(string + Hint) \<Rightarrow> react_state \<Rightarrow> app_state \<Rightarrow> completion \<times> app_state" where
  "inactivity_callback hint_result closure s =
     (case scenario closure of
        None \<Rightarrow> (Normal, s)
      | Some sc \<Rightarrow>
          if status closure = Active
          then
            let finalTranscript = filter isFinal (transcript closure);
                s1 = send_request (GenerateHint sc finalTranscript) s
            in (case hint_result of
                  Inl e \<Rightarrow> (Throw, s1)
                | Inr generatedHint \<Rightarrow> (Normal, setHint (Some generatedHint) s1))
          else (Normal, s))"

text \<open>The host fires the pending timer, if there is one.\<close>

definition timer_fired :: "(string + Hint) \<Rightarrow> app_state \<Rightarrow> completion \<times> app_state" where
  "timer_fired hint_result s =
     (case inactivityTimer s of
        None \<Rightarrow> (Normal, s)
      | Some closure \<Rightarrow> inactivity_callback hint_result closure (s\<lparr>inactivityTimer := None\<rparr>))"

text \<open>
  The effect that arms and disarms the watchdog, for a render with the values \<open>rendered\<close>,
  and its cleanup, which runs before the effect of the next render and on unmount.
\<close>

definition watchdog_effect :: "react_state \<Rightarrow> app_state \<Rightarrow> app_state" where
  "watchdog_effect rendered s =
     (if status rendered = Active \<and> \<not> isNpcSpeaking rendered \<and> \<not> isRecording rendered
      then startInactivityTimer rendered s
      else
        let s1 = clearInactivityTimer s
        in if hint rendered \<noteq> None then setHint None s1 else s1)"

definition watchdog_cleanup :: "app_state \<Rightarrow> app_state" where
  "watchdog_cleanup s = clearInactivityTimer s"

text \<open>React commits a render of the current state: the old cleanup, then the effect.\<close>

definition commit_render :: "app_state \<Rightarrow> app_state" where
  "commit_render s = watchdog_effect (react s) (watchdog_cleanup s)"

text \<open>
  The microphone button.  \<^verbatim>\<open>handleMicToggle\<close>, \<^verbatim>\<open>startRecording\<close> and
  \<^verbatim>\<open>stopRecording\<close> are created anew in every render, so they see the rendered values.
  Starting a recording clears the inactivity timer first.
\<close>

definition startRecording :: "react_state \<Rightarrow> app_state \<Rightarrow> app_state" where
  "startRecording rendered s =
     (if scriptProcessorRef s = None \<or> mediaStreamSourceRef s = None \<or>
         inputAudioContextRef s = None \<or> status rendered \<noteq> Active
      then s
      else setIsRecording True s)"

definition stopRecording :: "app_state \<Rightarrow> completion \<times> app_state" where
  "stopRecording s =
     (case scriptProcessorRef s of
        None \<Rightarrow> (Normal, s)
      | Some node \<Rightarrow>
          if mediaStreamSourceRef s = None then (Normal, s)
          else if disconnect_throws node then (Throw, s)
          else (Normal, setIsRecording False (host_call ProcessorDisconnect s)))"

definition handleMicToggle :: "react_state \<Rightarrow> app_state \<Rightarrow> completion \<times> app_state" where
  "handleMicToggle rendered s =
     (if isRecording rendered then stopRecording s
      else (Normal, startRecording rendered (setHint None (clearInactivityTimer s))))"

section \<open>Concrete inputs\<close>

text \<open>A scenario, a summary, a hint and a host on which the handlers are run below.\<close>

definition demo_scenario :: Scenario where
  "demo_scenario =
     \<lparr>locationName = ''Cafe de Flore'', locationType = ''cafe'', task = ''Order a coffee'',
      npcProfile =
        \<lparr>npc_name = ''Marie'', npc_gender = Female, voice = ''Kore'',
         languages_primary = ''French'', languages_secondary = None,
         fluencyPrimary = High, fluencySecondary = None, patience = Medium,
         helpfulness = High, npc_accent = Local, quirk = ''hums''\<rparr>,
      sceneDescription = ''A small cafe'', conversationStarter = User, openingLine = None\<rparr>"

definition demo_result :: ConversationResult where
  "demo_result =
     \<lparr>finalSummary = ''Ordered a coffee.'', whatWentWell = [], whatToTryNext = [],
      conversationTurns = 1, immersionScore = 100, suggestedContinuation = None,
      suggestedContinuationExplanation = None\<rparr>"

definition demo_hint :: Hint where
  "demo_hint =
     \<lparr>suggestion = ''Un cafe'', hint_translation = ''A coffee'', hint_pronunciation = ''uh kafay'',
      explanation = ''Short order''\<rparr>"

definition demo_env :: begin_env where
  "demo_env =
     \<lparr>getUserMedia_result = Inr \<lparr>tracks = [\<lparr>track_id = 0, track_stop_throws = False\<rparr>]\<rparr>,
      inContext = \<lparr>ctx_state = Running, resume_rejects = False, close_rejects = False\<rparr>,
      sourceNode = \<lparr>disconnect_throws = False\<rparr>,
      processorNode = \<lparr>disconnect_throws = False\<rparr>,
      outContext = \<lparr>ctx_state = Running, resume_rejects = False, close_rejects = False\<rparr>,
      connect_result = Inr \<lparr>session_close_throws = False\<rparr>,
      generateSpeech_result = Inr None,
      env_atob = Some, env_currentTime = 0,
      env_bufferSource = \<lparr>source_id = 0, source_stop_throws = False\<rparr>\<rparr>"

text \<open>The component on the briefing screen of the scenario.\<close>

definition briefing_state :: app_state where
  "briefing_state = setScenario (Some demo_scenario) (setStatus Briefing initial_state)"



section \<open>Properties of the sample conversion\<close>

lemma sint_int16_wrap:
  "sint (word_of_int k :: 16 word) = (k + 32768) mod 65536 - 32768"
  by (simp add: int_word_sint)

lemma int16_bytes_roundtrip:
  "push_bit 8 (ucast (ucast (drop_bit 8 w) :: 8 word)) OR ucast (ucast w :: 8 word)
     = (w :: 16 word)"
  by (rule bit_word_eqI) (auto simp add: bit_simps)

lemma int16_view_uint8_view: "int16_view (uint8_view ws) = ws"
  by (induction ws) (simp_all add: uint8_view_def int16_bytes_roundtrip)

lemma length_uint8_view: "length (uint8_view ws) = 2 * length ws"
  by (induction ws) (simp_all add: uint8_view_def)

lemma trunc_of_int: "trunc (of_int k) = k"
  by (simp add: trunc_def)

lemma sint_in_range:
  assumes "- 32768 \<le> k" and "k \<le> 32767"
  shows "sint (word_of_int k :: 16 word) = k"
proof -
  have "0 \<le> k + 32768" and "k + 32768 < 65536"
    using assms by simp_all
  then have "(k + 32768) mod 65536 = k + 32768"
    by simp
  then show ?thesis
    by (simp add: sint_int16_wrap)
qed

lemma decodeAudioData_mono:
  assumes "even (length bytes)" and "bytes \<noteq> []"
  shows "decodeAudioData bytes rate 1 =
           Inr \<lparr>sampleRate = rate, frames = length (int16_view bytes),
                channelData = [map (\<lambda>v. Finite (real_of_int (sint v) / 32768)) (int16_view bytes)]\<rparr>"
proof -
  obtain lo hi rest where "bytes = lo # hi # rest"
    using assms by (cases bytes; cases "tl bytes") auto
  then have ne: "int16_view bytes \<noteq> []"
    by simp
  have "map (\<lambda>i. Finite (real_of_int (sint (int16_view bytes ! i)) / 32768)) [0..<length (int16_view bytes)]
        = map (\<lambda>v. Finite (real_of_int (sint v) / 32768)) (int16_view bytes)"
    (is "?l = ?r")
  proof -
    have "?l = map (\<lambda>v. Finite (real_of_int (sint v) / 32768))
                 (map ((!) (int16_view bytes)) [0..<length (int16_view bytes)])"
      by (simp only: map_map comp_def)
    then show ?thesis
      by (simp only: map_nth)
  qed
  with assms ne show ?thesis
    by (simp add: decodeAudioData_def Let_def)
qed

lemma ToInt16_exact:
  assumes "- 32768 \<le> k" and "k \<le> 32767"
  shows "sint (ToInt16 (times_number (Finite (real_of_int k / 32768)) 32768)) = k"
proof -
  have "real_of_int k / 32768 * 32768 = real_of_int k" by simp
  then show ?thesis
    using assms by (simp add: trunc_of_int sint_in_range)
qed

lemma createBlob_int16_exact:
  assumes "\<forall>x \<in> set data. \<exists>k. x = Finite (real_of_int k / 32768) \<and> - 32768 \<le> k \<and> k \<le> 32767"
  shows "map (\<lambda>v. Finite (real_of_int (sint v) / 32768)) (createBlob_int16 data) = data"
  using assms
proof (induction data)
  case Nil
  then show ?case by (simp add: createBlob_int16_def)
next
  case (Cons x xs)
  then obtain k where k: "x = Finite (real_of_int k / 32768)" "- 32768 \<le> k" "k \<le> 32767"
    by auto
  have "sint (ToInt16 (times_number x 32768)) = k"
    unfolding k(1) using k(2,3) by (rule ToInt16_exact)
  then have "Finite (real_of_int (sint (ToInt16 (times_number x 32768))) / 32768) = x"
    by (simp only: k(1))
  moreover have "map (\<lambda>v. Finite (real_of_int (sint v) / 32768)) (createBlob_int16 xs) = xs"
    using Cons by simp
  ultimately show ?case
    by (simp add: createBlob_int16_def)
qed

text \<open>
  Claim C9.  \<^verbatim>\<open>createBlob\<close> stores, for every finite input sample \<open>x\<close>, the 16-bit value of
  \<open>x * 32768\<close> without clamping \<open>x\<close> to \<open>[-1, 1]\<close> first: the stored value is the truncated
  product reduced modulo \<open>2^16\<close> into the two's-complement range, which is the product itself
  when that is an integer between \<open>-32768\<close> and \<open>32767\<close>; and some sample above 1 is stored
  wrapped by \<open>2^16\<close> instead of saturated at \<open>32767\<close>.
\<close>

theorem createBlob_no_clamping:
  "length (createBlob_int16 data) = length data \<and>
   (i < length data \<and> data ! i = Finite x \<longrightarrow>
      sint (createBlob_int16 data ! i) = (trunc (x * 32768) + 32768) mod 65536 - 32768) \<and>
   (i < length data \<and> data ! i = Finite (real_of_int k / 32768) \<and> - 32768 \<le> k \<and> k \<le> 32767 \<longrightarrow>
      sint (createBlob_int16 data ! i) = k) \<and>
   (\<exists>y. 1 < y \<and> sint (createBlob_int16 [Finite y] ! 0) = trunc (y * 32768) - 65536
        \<and> sint (createBlob_int16 [Finite y] ! 0) \<noteq> 32767)"
proof (intro conjI impI)
  show "length (createBlob_int16 data) = length data"
    by (simp add: createBlob_int16_def)
next
  assume "i < length data \<and> data ! i = Finite x"
  then show "sint (createBlob_int16 data ! i) = (trunc (x * 32768) + 32768) mod 65536 - 32768"
    by (simp add: createBlob_int16_def sint_int16_wrap)
next
  assume "i < length data \<and> data ! i = Finite (real_of_int k / 32768) \<and> - 32768 \<le> k \<and> k \<le> 32767"
  then show "sint (createBlob_int16 data ! i) = k"
    by (simp add: createBlob_int16_def trunc_of_int sint_in_range)
next
  have "trunc (3 / 2 * 32768) = 49152"
    by (simp add: trunc_def)
  then have "sint (createBlob_int16 [Finite (3 / 2)] ! 0) = - 16384
      \<and> trunc (3 / 2 * 32768) - 65536 = - 16384"
    by (simp add: createBlob_int16_def)
  then have "(1::real) < 3 / 2 \<and> sint (createBlob_int16 [Finite (3 / 2)] ! 0) = trunc (3 / 2 * 32768) - 65536
        \<and> sint (createBlob_int16 [Finite (3 / 2)] ! 0) \<noteq> 32767"
    by simp
  then show "\<exists>y. 1 < y \<and> sint (createBlob_int16 [Finite y] ! 0) = trunc (y * 32768) - 65536
        \<and> sint (createBlob_int16 [Finite y] ! 0) \<noteq> 32767"
    by (rule exI)
qed


theorem createBlob_no_clamping_witness:
  "sint (createBlob_int16 [Finite (1 / 2), Finite (3 / 2)] ! 1) = - 16384 \<and>
   sint (createBlob_int16 [Finite (1 / 2), Finite (3 / 2)] ! 0) = 16384"
proof -
  let ?data = "[Finite (1 / 2), Finite (3 / 2)]"
  have t: "trunc (3 / 2 * 32768) = 49152"
    by (simp add: trunc_def)
  have "1 < length ?data \<and> ?data ! 1 = Finite (3 / 2)"
    by simp
  with createBlob_no_clamping [of ?data 1 "3 / 2" 0]
  have "sint (createBlob_int16 ?data ! 1) = (trunc (3 / 2 * 32768) + 32768) mod 65536 - 32768"
    by blast
  then have a: "sint (createBlob_int16 ?data ! 1) = - 16384"
    by (simp only: t) simp
  have "0 < length ?data \<and> ?data ! 0 = Finite (real_of_int 16384 / 32768)
      \<and> - 32768 \<le> (16384::int) \<and> (16384::int) \<le> 32767"
    by simp
  with createBlob_no_clamping [of ?data 0 0 16384]
  have b: "sint (createBlob_int16 ?data ! 0) = 16384"
    by blast
  from a b show ?thesis
    by (rule conjI)
qed

text \<open>
  Claim C10.  \<^verbatim>\<open>decodeAudioData\<close> on one channel maps every stored 16-bit value \<open>v\<close> to
  \<open>v / 32768\<close>, and it is a left inverse of the capture conversion at 16-bit precision: for a
  non-empty frame whose samples \<open>x\<close> all have \<open>x * 32768\<close> an integer between \<open>-32768\<close> and
  \<open>32767\<close>, decoding the bytes \<^verbatim>\<open>createBlob\<close> produces gives back the frame.
\<close>

theorem decode_inverts_createBlob:
  "(even (length bytes) \<and> bytes \<noteq> [] \<longrightarrow>
      decodeAudioData bytes rate 1 =
        Inr \<lparr>sampleRate = rate, frames = length (int16_view bytes),
             channelData = [map (\<lambda>v. Finite (real_of_int (sint v) / 32768)) (int16_view bytes)]\<rparr>) \<and>
   (data \<noteq> [] \<and>
    (\<forall>x \<in> set data. \<exists>k. x = Finite (real_of_int k / 32768) \<and> - 32768 \<le> k \<and> k \<le> 32767) \<longrightarrow>
      decodeAudioData (uint8_view (createBlob_int16 data)) rate 1 =
        Inr \<lparr>sampleRate = rate, frames = length data, channelData = [data]\<rparr>)"
proof (intro conjI impI)
  assume "even (length bytes) \<and> bytes \<noteq> []"
  then have "even (length bytes)" and "bytes \<noteq> []"
    by simp_all
  then show "decodeAudioData bytes rate 1 =
        Inr \<lparr>sampleRate = rate, frames = length (int16_view bytes),
             channelData = [map (\<lambda>v. Finite (real_of_int (sint v) / 32768)) (int16_view bytes)]\<rparr>"
    by (rule decodeAudioData_mono)
next
  assume a: "data \<noteq> [] \<and>
    (\<forall>x \<in> set data. \<exists>k. x = Finite (real_of_int k / 32768) \<and> - 32768 \<le> k \<and> k \<le> 32767)"
  let ?bytes = "uint8_view (createBlob_int16 data)"
  have len: "length (createBlob_int16 data) = length data"
    by (simp add: createBlob_int16_def)
  have "even (length ?bytes)"
    by (simp add: length_uint8_view)
  moreover have "?bytes \<noteq> []"
  proof
    assume "?bytes = []"
    then have "length ?bytes = 0" by simp
    then show False using a by (simp add: length_uint8_view len)
  qed
  ultimately have "decodeAudioData ?bytes rate 1 =
        Inr \<lparr>sampleRate = rate, frames = length (int16_view ?bytes),
             channelData = [map (\<lambda>v. Finite (real_of_int (sint v) / 32768)) (int16_view ?bytes)]\<rparr>"
    by (rule decodeAudioData_mono)
  moreover have "map (\<lambda>v. Finite (real_of_int (sint v) / 32768)) (createBlob_int16 data) = data"
    using a by (intro createBlob_int16_exact) (rule conjunct2)
  ultimately show "decodeAudioData ?bytes rate 1 =
        Inr \<lparr>sampleRate = rate, frames = length data, channelData = [data]\<rparr>"
    by (simp only: int16_view_uint8_view len)
qed

theorem decode_inverts_createBlob_witness:
  "decodeAudioData (uint8_view (createBlob_int16 [Finite (1 / 2), Finite (- 1)])) 24000 1 =
     Inr \<lparr>sampleRate = 24000, frames = 2, channelData = [[Finite (1 / 2), Finite (- 1)]]\<rparr> \<and>
   decodeAudioData [0, 64] 24000 1 =
     Inr \<lparr>sampleRate = 24000, frames = 1, channelData = [[Finite (1 / 2)]]\<rparr>"
proof -
  let ?data = "[Finite (1 / 2), Finite (- 1)]"
  have "\<exists>k. Finite (1 / 2) = Finite (real_of_int k / 32768) \<and> - 32768 \<le> k \<and> k \<le> 32767"
    by (rule exI [of _ 16384]) simp
  moreover have "\<exists>k. Finite (- 1) = Finite (real_of_int k / 32768) \<and> - 32768 \<le> k \<and> k \<le> 32767"
    by (rule exI [of _ "- 32768"]) simp
  ultimately have hyp: "?data \<noteq> [] \<and>
      (\<forall>x \<in> set ?data. \<exists>k. x = Finite (real_of_int k / 32768) \<and> - 32768 \<le> k \<and> k \<le> 32767)"
    by simp
  have hyp2: "even (length [0, 64 :: 8 word]) \<and> [0, 64 :: 8 word] \<noteq> []"
    by simp
  have w: "(push_bit 8 (ucast (64 :: 8 word)) OR ucast (0 :: 8 word) :: 16 word) = 16384"
    by simp
  have s: "real_of_int (sint (16384 :: 16 word)) / 32768 = 1 / 2"
    by simp
  note inst = decode_inverts_createBlob [of "[0, 64]" 24000 ?data]
  from inst hyp have a: "decodeAudioData (uint8_view (createBlob_int16 ?data)) 24000 1 =
     Inr \<lparr>sampleRate = 24000, frames = length ?data, channelData = [?data]\<rparr>"
    by blast
  from inst hyp2 have "decodeAudioData [0, 64] 24000 1 =
        Inr \<lparr>sampleRate = 24000, frames = length (int16_view [0, 64]),
             channelData = [map (\<lambda>v. Finite (real_of_int (sint v) / 32768)) (int16_view [0, 64])]\<rparr>"
    by blast
  then have b: "decodeAudioData [0, 64] 24000 1 =
     Inr \<lparr>sampleRate = 24000, frames = 1, channelData = [[Finite (1 / 2)]]\<rparr>"
    using w s by simp
  from a b show ?thesis
    by simp
qed

section \<open>Properties of the transcript reconciler\<close>

lemma onTranscriptUpdate_eq:
  "onTranscriptUpdate new prev =
     (if prev \<noteq> [] \<and> speaker (last prev) = speaker new \<and> \<not> isFinal (last prev)
      then butlast prev @ [(last prev)\<lparr>text' := text' (last prev) @ text' new\<rparr>]
      else prev @ [new])"
proof (cases prev rule: rev_cases)
  case Nil
  then show ?thesis by (simp add: onTranscriptUpdate_def)
next
  case (snoc ys y)
  then show ?thesis by (simp add: onTranscriptUpdate_def Let_def)
qed

lemma onTurnComplete_final: "list_all isFinal (onTurnComplete prev)"
  by (simp add: onTurnComplete_def list_all_iff)

lemma onTranscriptUpdate_after_boundary:
  "onTranscriptUpdate new (onTurnComplete prev) = onTurnComplete prev @ [new]"
proof (cases prev rule: rev_cases)
  case Nil
  then show ?thesis by (simp add: onTranscriptUpdate_eq onTurnComplete_def)
next
  case (snoc ys y)
  then show ?thesis by (simp add: onTranscriptUpdate_eq onTurnComplete_def)
qed

text \<open>
  Claim C2.  A fragment \<open>(who, t, isFinal = false)\<close> is concatenated onto the last entry
  exactly when that entry exists, has the same speaker and is not final, and is appended as
  a new entry otherwise; a turn boundary makes every entry final (speakers and texts
  unchanged), so the next fragment starts a new entry.  The fragments (user, Bon),
  (user, jour), (agent, Hi) give the two entries Bonjour and Hi, and after a boundary
  (user, Merci) is a third entry.
\<close>

theorem transcript_reconciliation:
  "onTranscriptUpdate (fragment who t) prev =
     (if prev \<noteq> [] \<and> speaker (last prev) = who \<and> \<not> isFinal (last prev)
      then butlast prev @ [(last prev)\<lparr>text' := text' (last prev) @ t\<rparr>]
      else prev @ [\<lparr>speaker = who, text' = t, isFinal = False, imageUrl = None\<rparr>]) \<and>
   list_all isFinal (onTurnComplete prev) \<and>
   map speaker (onTurnComplete prev) = map speaker prev \<and>
   map text' (onTurnComplete prev) = map text' prev \<and>
   onTranscriptUpdate (fragment who t) (onTurnComplete prev) =
     onTurnComplete prev @ [\<lparr>speaker = who, text' = t, isFinal = False, imageUrl = None\<rparr>] \<and>
   onTranscriptUpdate (fragment Npc ''Hi'')
     (onTranscriptUpdate (fragment User ''jour'') (onTranscriptUpdate (fragment User ''Bon'') [])) =
     [\<lparr>speaker = User, text' = ''Bonjour'', isFinal = False, imageUrl = None\<rparr>,
      \<lparr>speaker = Npc, text' = ''Hi'', isFinal = False, imageUrl = None\<rparr>] \<and>
   onTranscriptUpdate (fragment User ''Merci'')
     (onTurnComplete
       [\<lparr>speaker = User, text' = ''Bonjour'', isFinal = False, imageUrl = None\<rparr>,
        \<lparr>speaker = Npc, text' = ''Hi'', isFinal = False, imageUrl = None\<rparr>]) =
     [\<lparr>speaker = User, text' = ''Bonjour'', isFinal = True, imageUrl = None\<rparr>,
      \<lparr>speaker = Npc, text' = ''Hi'', isFinal = True, imageUrl = None\<rparr>,
      \<lparr>speaker = User, text' = ''Merci'', isFinal = False, imageUrl = None\<rparr>]"
proof (intro conjI)
  show "onTranscriptUpdate (fragment who t) prev =
     (if prev \<noteq> [] \<and> speaker (last prev) = who \<and> \<not> isFinal (last prev)
      then butlast prev @ [(last prev)\<lparr>text' := text' (last prev) @ t\<rparr>]
      else prev @ [\<lparr>speaker = who, text' = t, isFinal = False, imageUrl = None\<rparr>])"
    by (simp add: onTranscriptUpdate_eq fragment_def)
  show "list_all isFinal (onTurnComplete prev)"
    by (rule onTurnComplete_final)
  show "map speaker (onTurnComplete prev) = map speaker prev"
    by (simp add: onTurnComplete_def)
  show "map text' (onTurnComplete prev) = map text' prev"
    by (simp add: onTurnComplete_def)
  show "onTranscriptUpdate (fragment who t) (onTurnComplete prev) =
     onTurnComplete prev @ [\<lparr>speaker = who, text' = t, isFinal = False, imageUrl = None\<rparr>]"
    by (simp add: onTranscriptUpdate_after_boundary) (simp add: fragment_def)
  show "onTranscriptUpdate (fragment Npc ''Hi'')
     (onTranscriptUpdate (fragment User ''jour'') (onTranscriptUpdate (fragment User ''Bon'') [])) =
     [\<lparr>speaker = User, text' = ''Bonjour'', isFinal = False, imageUrl = None\<rparr>,
      \<lparr>speaker = Npc, text' = ''Hi'', isFinal = False, imageUrl = None\<rparr>]"
    by (simp add: onTranscriptUpdate_eq fragment_def)
  show "onTranscriptUpdate (fragment User ''Merci'')
     (onTurnComplete
       [\<lparr>speaker = User, text' = ''Bonjour'', isFinal = False, imageUrl = None\<rparr>,
        \<lparr>speaker = Npc, text' = ''Hi'', isFinal = False, imageUrl = None\<rparr>]) =
     [\<lparr>speaker = User, text' = ''Bonjour'', isFinal = True, imageUrl = None\<rparr>,
      \<lparr>speaker = Npc, text' = ''Hi'', isFinal = True, imageUrl = None\<rparr>,
      \<lparr>speaker = User, text' = ''Merci'', isFinal = False, imageUrl = None\<rparr>]"
    by (simp add: onTranscriptUpdate_after_boundary) (simp add: onTurnComplete_def fragment_def)
qed

theorem transcript_reconciliation_witness:
  "onTranscriptUpdate (fragment User ''jour'')
     [\<lparr>speaker = User, text' = ''Bon'', isFinal = False, imageUrl = None\<rparr>] =
     [\<lparr>speaker = User, text' = ''Bonjour'', isFinal = False, imageUrl = None\<rparr>] \<and>
   onTranscriptUpdate (fragment User ''jour'')
     [\<lparr>speaker = Npc, text' = ''Bon'', isFinal = False, imageUrl = None\<rparr>] =
     [\<lparr>speaker = Npc, text' = ''Bon'', isFinal = False, imageUrl = None\<rparr>,
      \<lparr>speaker = User, text' = ''jour'', isFinal = False, imageUrl = None\<rparr>]"
  using transcript_reconciliation
      [of User "''jour''" "[\<lparr>speaker = User, text' = ''Bon'', isFinal = False, imageUrl = None\<rparr>]"]
    transcript_reconciliation
      [of User "''jour''" "[\<lparr>speaker = Npc, text' = ''Bon'', isFinal = False, imageUrl = None\<rparr>]"]
  by simp

section \<open>Properties of the outbound stream\<close>

lemma run_stream_snoc:
  "run_stream btoa (events @ [e]) ob = stream_step btoa (run_stream btoa events ob) e"
  by (simp add: run_stream_def)

lemma handed_append: "handed btoa (xs @ ys) = handed btoa xs @ handed btoa ys"
  by (induction btoa xs rule: handed.induct) simp_all

lemma stream_inv_step:
  assumes "stream_inv btoa events ob"
  shows "stream_inv btoa (events @ [e]) (stream_step btoa ob e)"
proof (cases e)
  case (AudioProcess inputData)
  with assms show ?thesis
    by (cases "sessionPromise ob")
      (simp_all add: stream_inv_def onaudioprocess_def handed_append Let_def)
next
  case ChannelOpen
  with assms show ?thesis
    by (cases "sessionPromise ob") (simp_all add: stream_inv_def channel_open_def handed_append)
next
  case ChannelFail
  with assms show ?thesis
    by (cases "sessionPromise ob") (simp_all add: stream_inv_def channel_fail_def handed_append)
next
  case RunJob
  with assms show ?thesis
    by (cases "sessionPromise ob"; cases "jobs ob")
      (auto simp add: stream_inv_def run_job_def handed_append)
qed

lemma stream_inv_run: "stream_inv btoa events (run_stream btoa events outbound_init)"
proof (induction events rule: rev_induct)
  case Nil
  show ?case by (simp add: run_stream_def stream_inv_def outbound_init_def)
next
  case (snoc e events)
  then show ?case by (simp only: run_stream_snoc stream_inv_step)
qed

lemma drain_jobs:
  "sessionPromise (run_stream btoa (replicate (length (jobs ob)) RunJob) ob) = sessionPromise ob \<and>
   jobs (run_stream btoa (replicate (length (jobs ob)) RunJob) ob) = [] \<and>
   delivered (run_stream btoa (replicate (length (jobs ob)) RunJob) ob) = delivered ob @ jobs ob"
proof (induction "jobs ob" arbitrary: ob)
  case Nil
  then show ?case by (simp add: run_stream_def flip: Nil)
next
  case (Cons send rest)
  let ?ob = "run_job ob"
  have j: "jobs ?ob = rest" and d: "delivered ?ob = delivered ob @ [send]"
    and p: "sessionPromise ?ob = sessionPromise ob"
    using Cons(2) [symmetric] by (simp_all add: run_job_def)
  have "rest = jobs ?ob" using j by simp
  from Cons(1) [OF this] j d p
  have "sessionPromise (run_stream btoa (replicate (length rest) RunJob) ?ob) = sessionPromise ob \<and>
        jobs (run_stream btoa (replicate (length rest) RunJob) ?ob) = [] \<and>
        delivered (run_stream btoa (replicate (length rest) RunJob) ?ob) = (delivered ob @ [send]) @ rest"
    by simp
  moreover have "run_stream btoa (replicate (length (jobs ob)) RunJob) ob
      = run_stream btoa (replicate (length rest) RunJob) ?ob"
    using Cons(2) [symmetric] by (simp add: run_stream_def)
  ultimately show ?case
    using Cons(2) [symmetric] by simp
qed


lemma run_stream_append:
  "run_stream btoa (xs @ ys) ob = run_stream btoa ys (run_stream btoa xs ob)"
  by (simp add: run_stream_def)

text \<open>
  Claim C3.  Whatever the order of captures, of the channel opening or failing and of job
  runs: the messages delivered to the channel are always an initial segment of the frames
  handed to the stream, in capture order; while the channel-ready promise is pending nothing
  is delivered and every frame waits in registration order; once it is fulfilled every frame
  handed over is delivered or queued, in capture order, and running the queued jobs
  delivers them all.
\<close>

theorem outbound_delivery_in_order:
  "(let ob = run_stream btoa events outbound_init in
     prefix (delivered ob) (handed btoa events) \<and>
     (sessionPromise ob = Pending \<longrightarrow> delivered ob = [] \<and> reactions ob = handed btoa events) \<and>
     (sessionPromise ob = Fulfilled \<longrightarrow>
        delivered ob @ jobs ob = handed btoa events \<and>
        delivered (run_stream btoa (events @ replicate (length (jobs ob)) RunJob) outbound_init)
          = handed btoa events))"
proof -
  let ?ob = "run_stream btoa events outbound_init"
  have inv: "stream_inv btoa events ?ob"
    by (rule stream_inv_run)
  have a: "prefix (delivered ?ob) (handed btoa events)"
  proof (cases "sessionPromise ?ob")
    case Fulfilled
    with inv have "handed btoa events = delivered ?ob @ jobs ?ob"
      by (simp add: stream_inv_def)
    then show ?thesis
      by (rule prefixI)
  qed (use inv in \<open>simp_all add: stream_inv_def\<close>)
  have b: "sessionPromise ?ob = Pending \<longrightarrow> delivered ?ob = [] \<and> reactions ?ob = handed btoa events"
  proof
    assume "sessionPromise ?ob = Pending"
    with inv show "delivered ?ob = [] \<and> reactions ?ob = handed btoa events"
      by (simp add: stream_inv_def)
  qed
  have c: "sessionPromise ?ob = Fulfilled \<longrightarrow>
        delivered ?ob @ jobs ?ob = handed btoa events \<and>
        delivered (run_stream btoa (events @ replicate (length (jobs ?ob)) RunJob) outbound_init)
          = handed btoa events"
  proof
    assume f: "sessionPromise ?ob = Fulfilled"
    then have d: "delivered ?ob @ jobs ?ob = handed btoa events"
      using inv by (simp add: stream_inv_def)
    have "delivered (run_stream btoa (replicate (length (jobs ?ob)) RunJob) ?ob)
        = delivered ?ob @ jobs ?ob"
      using drain_jobs [of btoa ?ob] by simp
    then show "delivered ?ob @ jobs ?ob = handed btoa events \<and>
        delivered (run_stream btoa (events @ replicate (length (jobs ?ob)) RunJob) outbound_init)
          = handed btoa events"
      using d by (simp add: run_stream_append)
  qed
  from a b c show ?thesis
    by (simp add: Let_def)
qed

theorem outbound_delivery_in_order_witness:
  "delivered (run_stream (\<lambda>s. s)
      [AudioProcess [Finite (1 / 2)], ChannelOpen, AudioProcess [Finite 0], RunJob, RunJob]
      outbound_init)
   = [\<lparr>media = createBlob (\<lambda>s. s) [Finite (1 / 2)]\<rparr>, \<lparr>media = createBlob (\<lambda>s. s) [Finite 0]\<rparr>]"
proof -
  let ?events = "[AudioProcess [Finite (1 / 2)], ChannelOpen, AudioProcess [Finite 0]]"
  let ?ob = "run_stream (\<lambda>s. s) ?events outbound_init"
  have p: "sessionPromise ?ob = Fulfilled" and j: "length (jobs ?ob) = 2"
    by (simp_all add: run_stream_def onaudioprocess_def channel_open_def outbound_init_def Let_def)
  have r: "replicate 2 RunJob = [RunJob, RunJob]"
    by (simp add: numeral_2_eq_2)
  from outbound_delivery_in_order [of "\<lambda>s. s" ?events] p
  have "delivered (run_stream (\<lambda>s. s) (?events @ replicate (length (jobs ?ob)) RunJob) outbound_init)
          = handed (\<lambda>s. s) ?events"
    by (simp add: Let_def)
  then show ?thesis
    by (simp only: j r) simp
qed

section \<open>Properties of binary64 rounding\<close>

text \<open>
  Rounding to the nearest integer stays within a half of its argument and never crosses an
  integer; \<open>exponent\<close> is the binary exponent it is meant to be.  From these: rounding to
  binary64 never crosses a binary64 value (\<open>binary64_ge\<close>), its result is a binary64 value
  (\<open>binary64_idem\<close>), and it is within half a unit in the last place of its argument
  (\<open>binary64_error\<close>).
\<close>

lemma round_half_even_floor: "\<lfloor>x\<rfloor> \<le> round_half_even x"
  by (simp add: round_half_even_def Let_def)

lemma round_half_even_of_int [simp]: "round_half_even (of_int k) = k"
  by (simp add: round_half_even_def Let_def)

lemma round_half_even_error: "\<bar>of_int (round_half_even x) - x\<bar> \<le> 1 / 2"
  by (auto simp add: round_half_even_def Let_def)

lemma round_half_even_le:
  assumes "x \<le> of_int k"
  shows "round_half_even x \<le> k"
proof (cases "x = of_int k")
  case True
  then show ?thesis by simp
next
  case False
  with assms have "x < of_int k" by simp
  then have "\<lfloor>x\<rfloor> < k" by (simp add: floor_less_iff)
  moreover have "round_half_even x \<le> \<lfloor>x\<rfloor> + 1"
    by (simp add: round_half_even_def Let_def)
  ultimately show ?thesis by linarith
qed

lemma round_half_even_ge:
  assumes "of_int k \<le> x"
  shows "k \<le> round_half_even x"
proof -
  from assms have "k \<le> \<lfloor>x\<rfloor>" by (simp add: le_floor_iff)
  with round_half_even_floor [of x] show ?thesis by linarith
qed

lemma exponent_bounds:
  assumes "0 < x"
  shows "2 powi (exponent x) \<le> x \<and> x < 2 powi (exponent x + 1)"
proof (cases "1 \<le> x")
  case True
  let ?n = "\<lfloor>x\<rfloor>"
  have n: "0 < ?n" using True by simp
  from bitlen_bounds [OF n]
  have lo: "2 ^ nat (bitlen ?n - 1) \<le> ?n" and hi: "?n < 2 ^ nat (bitlen ?n)"
    by simp_all
  have b: "1 \<le> bitlen ?n"
    using n by (simp add: bitlen_alt_def)
  have e: "exponent x = bitlen ?n - 1"
    using True by (simp add: exponent_def)
  have "2 powi (bitlen ?n - 1) = (2::real) ^ nat (bitlen ?n - 1)"
    using b by (simp add: power_int_def)
  also have "\<dots> = of_int (2 ^ nat (bitlen ?n - 1))" by simp
  also have "\<dots> \<le> of_int ?n" using lo by (simp only: of_int_le_iff)
  also have "\<dots> \<le> x" by simp
  finally have 1: "2 powi (exponent x) \<le> x" using e by simp
  have "?n + 1 \<le> 2 ^ nat (bitlen ?n)" using hi by simp
  then have "of_int (?n + 1) \<le> (of_int (2 ^ nat (bitlen ?n)) :: real)"
    by (simp only: of_int_le_iff)
  moreover have "x < of_int (?n + 1)" by linarith
  ultimately have "x < of_int (2 ^ nat (bitlen ?n))" by linarith
  then have "x < (2::real) ^ nat (bitlen ?n)" by simp
  also have "\<dots> = 2 powi (bitlen ?n)"
    using b by (simp add: power_int_def)
  finally have 2: "x < 2 powi (exponent x + 1)" using e by simp
  from 1 2 show ?thesis ..
next
  case False
  let ?a = "\<lceil>1 / x\<rceil> - 1"
  have z: "1 < 1 / x" using False assms by simp
  then have a: "0 < ?a" by linarith
  from bitlen_bounds [OF a]
  have lo: "2 ^ nat (bitlen ?a - 1) \<le> ?a" and hi: "?a < 2 ^ nat (bitlen ?a)"
    by simp_all
  have b: "1 \<le> bitlen ?a"
    using a by (simp add: bitlen_alt_def)
  have e: "exponent x = - bitlen ?a"
    using False by (simp add: exponent_def)
  have "?a + 1 \<le> 2 ^ nat (bitlen ?a)" using hi by simp
  then have "of_int (?a + 1) \<le> (of_int (2 ^ nat (bitlen ?a)) :: real)"
    by (simp only: of_int_le_iff)
  moreover have "1 / x \<le> of_int (?a + 1)" by simp
  ultimately have "1 / x \<le> of_int (2 ^ nat (bitlen ?a))" by linarith
  then have "1 / x \<le> (2::real) ^ nat (bitlen ?a)" by simp
  then have "1 / 2 ^ nat (bitlen ?a) \<le> x"
    using assms by (simp add: field_simps)
  moreover have "2 powi (- bitlen ?a) = 1 / (2::real) ^ nat (bitlen ?a)"
    using b by (simp add: power_int_def field_simps)
  ultimately have 1: "2 powi (exponent x) \<le> x" using e by simp
  have "(of_int (2 ^ nat (bitlen ?a - 1)) :: real) \<le> of_int ?a"
    using lo by (simp only: of_int_le_iff)
  moreover have "of_int ?a < 1 / x" by linarith
  ultimately have "(of_int (2 ^ nat (bitlen ?a - 1)) :: real) < 1 / x" by linarith
  then have "(2::real) ^ nat (bitlen ?a - 1) < 1 / x" by simp
  then have "x < 1 / 2 ^ nat (bitlen ?a - 1)"
    using assms by (simp add: field_simps)
  moreover have "2 powi (- bitlen ?a + 1) = 1 / (2::real) ^ nat (bitlen ?a - 1)"
  proof -
    have "- bitlen ?a + 1 = - (bitlen ?a - 1)" by simp
    then have "2 powi (- bitlen ?a + 1) = 2 powi (- (bitlen ?a - 1))" by simp
    also have "\<dots> = 1 / (2::real) powi (bitlen ?a - 1)" by (simp only: power_int_minus_divide)
    also have "\<dots> = 1 / (2::real) ^ nat (bitlen ?a - 1)" using b by (simp add: power_int_def)
    finally show ?thesis .
  qed
  ultimately have 2: "x < 2 powi (exponent x + 1)" using e by simp
  from 1 2 show ?thesis ..
qed

lemma exponent_eqI:
  assumes "2 powi k \<le> x" and "x < 2 powi (k + 1)"
  shows "exponent x = k"
proof -
  have pos: "0 < x"
    using assms(1) by (rule less_le_trans [OF zero_less_power_int, rotated]) simp
  from exponent_bounds [OF pos]
  have lo: "2 powi (exponent x) \<le> x" and hi: "x < 2 powi (exponent x + 1)"
    by simp_all
  have "(2::real) powi k < 2 powi (exponent x + 1)"
    using assms(1) hi by simp
  then have 1: "k < exponent x + 1"
    by (metis power_int_increasing not_le one_le_numeral linorder_not_less)
  have "(2::real) powi (exponent x) < 2 powi (k + 1)"
    using lo assms(2) by simp
  then have 2: "exponent x < k + 1"
    by (metis power_int_increasing not_le one_le_numeral linorder_not_less)
  from 1 2 show ?thesis by simp
qed

lemma exponent_mono:
  assumes "0 < x" and "x \<le> y"
  shows "exponent x \<le> exponent y"
proof -
  have y: "0 < y" using assms by simp
  from exponent_bounds [OF assms(1)] exponent_bounds [OF y] assms(2)
  have "(2::real) powi (exponent x) < 2 powi (exponent y + 1)"
    by simp
  then have "exponent x < exponent y + 1"
    by (metis power_int_increasing not_le one_le_numeral linorder_not_less)
  then show ?thesis by simp
qed

lemma ulp_pos [simp]: "0 < ulp x"
  by (simp add: ulp_def)

lemma ulp_nonneg [simp]: "0 \<le> ulp x"
  by (simp add: ulp_def)

lemma ulp_neq_0 [simp]: "ulp x \<noteq> 0"
  by (simp add: ulp_def)

lemma round_half_even_0 [simp]: "round_half_even 0 = 0"
  by (simp add: round_half_even_def)

lemma binary64_0 [simp]: "binary64 0 = Finite 0"
  by (simp add: binary64_def Let_def)

lemma binary64_cases:
  "binary64 y = (let r = of_int (round_half_even (y / ulp y)) * ulp y
                 in if 2 ^ 1024 \<le> r then PosInfinity
                    else if r \<le> - (2 ^ 1024) then NegInfinity else Finite r)"
  by (simp add: binary64_def)

lemma binary64_FiniteD:
  assumes "binary64 y = Finite z"
  shows "z = of_int (round_half_even (y / ulp y)) * ulp y \<and> z < 2 ^ 1024 \<and> - (2 ^ 1024) < z"
  using assms by (simp add: binary64_def Let_def split: if_splits)

lemma two_powi_less_cancel:
  assumes "(2::real) powi a < 2 powi b"
  shows "a < b"
  using assms by (metis power_int_increasing not_le one_le_numeral linorder_not_less)

lemma exponent_less:
  assumes "0 < x" and "x < 2 powi k"
  shows "exponent x < k"
proof -
  from exponent_bounds [OF assms(1)] assms(2) have "(2::real) powi (exponent x) < 2 powi k"
    by simp
  then show ?thesis by (rule two_powi_less_cancel)
qed

lemma binary64_ge:
  assumes "0 \<le> x" and "binary64 x = Finite x" and "x \<le> y"
  shows "binary64 y = PosInfinity \<or> (\<exists>z. binary64 y = Finite z \<and> x \<le> z)"
proof -
  let ?r = "of_int (round_half_even (y / ulp y)) * ulp y"
  have y0: "0 \<le> y" using assms by simp
  have "x \<le> ?r"
  proof (cases "x = 0")
    case True
    have "of_int 0 \<le> y / ulp y" using y0 by simp
    then have "0 \<le> round_half_even (y / ulp y)" by (rule round_half_even_ge)
    with True show ?thesis by simp
  next
    case False
    with assms(1) have xp: "0 < x" by simp
    then have yp: "0 < y" using assms(3) by simp
    let ?kx = "round_half_even (x / ulp x)"
    from binary64_FiniteD [OF assms(2)] have xk: "x = of_int ?kx * ulp x"
      by simp
    define Ex where "Ex = max (exponent x) (- 1022)"
    define Ey where "Ey = max (exponent y) (- 1022)"
    have ux: "ulp x = 2 powi (Ex - 52)" using xp by (simp add: ulp_def Ex_def)
    have uy: "ulp y = 2 powi (Ey - 52)" using yp by (simp add: ulp_def Ey_def)
    have le: "Ex \<le> Ey"
      using exponent_mono [OF xp assms(3)] by (simp add: Ex_def Ey_def)
    show ?thesis
    proof (cases "Ex = Ey")
      case True
      then have u: "ulp y = ulp x" using ux uy by simp
      have "x / ulp x = of_int ?kx"
      proof -
        have "x / ulp x = of_int ?kx * ulp x / ulp x" using xk by simp
        then show ?thesis by simp
      qed
      moreover have "x / ulp x \<le> y / ulp x"
        using assms(3) by (simp add: divide_right_mono)
      ultimately have "of_int ?kx \<le> y / ulp y" using u by simp
      then have "?kx \<le> round_half_even (y / ulp y)" by (rule round_half_even_ge)
      then have "of_int ?kx * ulp x \<le> of_int (round_half_even (y / ulp y)) * ulp x"
        by (simp add: mult_right_mono)
      with xk u show ?thesis by simp
    next
      case False
      with le have lt: "Ex < Ey" by simp
      have "- 1022 \<le> Ex" and "exponent x \<le> Ex" by (simp_all add: Ex_def)
      with lt have ey: "Ey = exponent y" and ex1: "exponent x + 1 \<le> Ey"
        by (simp_all add: Ey_def max_def split: if_splits)
      define K :: int where "K = 2 ^ 52"
      have K: "real_of_int K = 2 powi 52" by (simp add: K_def)
      from exponent_bounds [OF yp] have "2 powi Ey \<le> y" using ey by simp
      then have "2 powi Ey / ulp y \<le> y / ulp y"
        by (simp add: divide_right_mono)
      moreover have "2 powi Ey / ulp y = (2::real) powi 52"
      proof -
        have "(2::real) powi Ey / 2 powi (Ey - 52) = 2 powi (Ey - (Ey - 52))"
          by (simp only: power_int_diff [symmetric, of 2] simp_thms numeral_neq_zero)
        then show ?thesis using uy by simp
      qed
      ultimately have "of_int K \<le> y / ulp y" using K by simp
      then have "K \<le> round_half_even (y / ulp y)" by (rule round_half_even_ge)
      then have "real_of_int K \<le> of_int (round_half_even (y / ulp y))"
        by (simp only: of_int_le_iff)
      then have "real_of_int K * ulp y \<le> ?r"
        by (rule mult_right_mono) simp
      moreover have "real_of_int K * ulp y = (2::real) powi Ey"
      proof -
        have "(2::real) powi 52 * 2 powi (Ey - 52) = 2 powi (52 + (Ey - 52))"
          by (simp only: power_int_add [symmetric, of 2] simp_thms numeral_neq_zero)
        then show ?thesis using uy K by simp
      qed
      ultimately have 1: "2 powi Ey \<le> ?r" by simp
      from ex1 have "(2::real) powi (exponent x + 1) \<le> 2 powi Ey"
        by (rule power_int_increasing) simp
      with exponent_bounds [OF xp] 1 show ?thesis by simp
    qed
  qed
  moreover have "\<not> ?r \<le> - (2 ^ 1024)" if "x \<le> ?r"
    using that assms(1) by simp
  ultimately show ?thesis
    by (simp add: binary64_def Let_def)
qed

lemma binary64_grid:
  assumes "z = of_int k * 2 powi j" and "0 \<le> k" and "k \<le> 2 ^ 53" and "- 1074 \<le> j"
    and "z < 2 ^ 1024"
  shows "binary64 z = Finite z"
proof (cases "k = 0")
  case True
  with assms(1) show ?thesis by simp
next
  case False
  with assms(2) have kp: "0 < k" by simp
  then have zp: "0 < z" using assms(1) by simp
  define E where "E = max (exponent z) (- 1022)"
  have u: "ulp z = 2 powi (E - 52)" using zp by (simp add: ulp_def E_def)
  have "\<exists>m. z / ulp z = of_int m"
  proof (cases "k = 2 ^ 53")
    case True
    have "z = (2::real) powi 53 * 2 powi j" using assms(1) True by simp
    also have "\<dots> = 2 powi (53 + j)"
      by (simp only: power_int_add [symmetric, of 2] simp_thms numeral_neq_zero)
    finally have z: "z = 2 powi (j + 53)" by (simp add: add.commute)
    have "exponent z = j + 53"
    proof (rule exponent_eqI)
      show "2 powi (j + 53) \<le> z" using z by simp
      have "(2::real) powi (j + 53) < 2 powi (j + 53 + 1)"
        by (rule power_int_strict_increasing) simp_all
      then show "z < 2 powi (j + 53 + 1)" using z by simp
    qed
    then have "E = j + 53" using assms(4) by (simp add: E_def)
    then have "ulp z = 2 powi (j + 1)" using u by (simp add: add.commute)
    then have "z / ulp z = (2::real) powi (j + 53) / 2 powi (j + 1)" using z by simp
    also have "\<dots> = 2 powi (j + 53 - (j + 1))"
      by (simp only: power_int_diff [symmetric, of 2] simp_thms numeral_neq_zero)
    also have "\<dots> = of_int (2 ^ 52)" by simp
    finally show ?thesis by blast
  next
    case False
    with assms(3) have "k < 2 ^ 53" by simp
    then have "(of_int k :: real) < of_int (2 ^ 53)" by (simp only: of_int_less_iff)
    then have "(of_int k :: real) < 2 powi 53" by simp
    then have "of_int k * 2 powi j < (2::real) powi 53 * 2 powi j"
      by (rule mult_strict_right_mono) simp
    also have "(2::real) powi 53 * 2 powi j = 2 powi (53 + j)"
      by (simp only: power_int_add [symmetric, of 2] simp_thms numeral_neq_zero)
    finally have "z < 2 powi (53 + j)" using assms(1) by simp
    from exponent_less [OF zp this] have "exponent z < 53 + j" .
    then have "E - 52 \<le> j" using assms(4) by (simp add: E_def)
    then obtain d where d: "j = (E - 52) + int d"
      by (metis zle_iff_zadd)
    have "2 powi j = (2::real) powi (E - 52) * 2 powi (int d)"
      unfolding d by (simp only: power_int_add [of 2] simp_thms numeral_neq_zero)
    then have "z = of_int k * 2 ^ d * ulp z" using assms(1) u by simp
    then have "z / ulp z = of_int k * 2 ^ d"
      by (metis nonzero_mult_div_cancel_right ulp_neq_0)
    then have "z / ulp z = of_int (k * 2 ^ d)" by simp
    then show ?thesis by blast
  qed
  then obtain m where m: "z / ulp z = of_int m" by blast
  then have "of_int (round_half_even (z / ulp z)) * ulp z = z"
    by simp (metis m nonzero_divide_eq_eq ulp_pos less_irrefl)
  with assms(5) zp show ?thesis
    by (simp add: binary64_def Let_def)
qed

lemma binary64_idem:
  assumes "0 \<le> y" and "binary64 y = Finite z"
  shows "binary64 z = Finite z"
proof (cases "y = 0")
  case True
  with assms(2) show ?thesis by simp
next
  case False
  with assms(1) have yp: "0 < y" by simp
  define E where "E = max (exponent y) (- 1022)"
  let ?k = "round_half_even (y / ulp y)"
  have u: "ulp y = 2 powi (E - 52)" using yp by (simp add: ulp_def E_def)
  from binary64_FiniteD [OF assms(2)]
  have z: "z = of_int ?k * 2 powi (E - 52)" and b: "z < 2 ^ 1024"
    using u by simp_all
  have "of_int 0 \<le> y / ulp y" using yp by simp
  then have k0: "0 \<le> ?k" by (rule round_half_even_ge)
  have "exponent y + 1 \<le> E + 1" by (simp add: E_def)
  then have "(2::real) powi (exponent y + 1) \<le> 2 powi (E + 1)"
    by (rule power_int_increasing) simp
  with exponent_bounds [OF yp] have "y < 2 powi (E + 1)" by simp
  then have "y / ulp y < 2 powi (E + 1) / ulp y"
    by (simp add: divide_strict_right_mono)
  moreover have "2 powi (E + 1) / ulp y = (2::real) powi 53"
  proof -
    have "(2::real) powi (E + 1) / 2 powi (E - 52) = 2 powi (E + 1 - (E - 52))"
      by (simp only: power_int_diff [symmetric, of 2] simp_thms numeral_neq_zero)
    then show ?thesis using u by simp
  qed
  ultimately have "y / ulp y \<le> of_int (2 ^ 53)" by simp
  then have k1: "?k \<le> 2 ^ 53" by (rule round_half_even_le)
  have j: "- 1074 \<le> E - 52" by (simp add: E_def)
  from z k0 k1 j b show ?thesis by (rule binary64_grid)
qed

lemma binary64_error:
  assumes "binary64 y = Finite z"
  shows "\<bar>z - y\<bar> \<le> ulp y / 2"
proof -
  let ?k = "round_half_even (y / ulp y)"
  from binary64_FiniteD [OF assms] have z: "z = of_int ?k * ulp y" by simp
  have "z - y = (of_int ?k - y / ulp y) * ulp y"
    using z by (simp add: field_simps)
  then have "\<bar>z - y\<bar> = \<bar>of_int ?k - y / ulp y\<bar> * ulp y"
    by (simp add: abs_mult)
  also have "\<dots> \<le> 1 / 2 * ulp y"
    using round_half_even_error [of "y / ulp y"] by (intro mult_right_mono) simp_all
  finally show ?thesis by simp
qed

lemma ulp_relative:
  assumes "2 powi (- 1022) \<le> y"
  shows "ulp y \<le> y / 2 ^ 52"
proof -
  have yp: "0 < y"
    using assms by (rule less_le_trans [OF zero_less_power_int, rotated]) simp
  have "\<not> exponent y < - 1022"
  proof
    assume "exponent y < - 1022"
    then have "exponent y + 1 \<le> - 1022" by simp
    then have "(2::real) powi (exponent y + 1) \<le> 2 powi (- 1022)"
      by (rule power_int_increasing) simp
    with exponent_bounds [OF yp] assms show False by simp
  qed
  then have "max (exponent y) (- 1022) = exponent y" by simp
  then have "ulp y = 2 powi (exponent y - 52)" using yp by (simp add: ulp_def)
  also have "\<dots> = 2 powi (exponent y) / 2 powi 52"
    by (simp only: power_int_diff [of 2] simp_thms numeral_neq_zero)
  also have "\<dots> \<le> y / 2 powi 52"
    using exponent_bounds [OF yp] by (simp add: divide_right_mono)
  finally show ?thesis by simp
qed

lemma relative_error_bound:
  fixes y z :: real
  assumes "\<bar>z - y\<bar> \<le> y / 2 ^ 52 / 2"
  shows "y * (1 - 1 / 2 ^ 53) \<le> z"
proof -
  have "y * (1 - 1 / 2 ^ 53) = y - y / 2 ^ 52 / 2"
    by (simp add: right_diff_distrib)
  with assms show ?thesis by linarith
qed

lemma binary64_two_powi_m15: "binary64 (1 / 32768) = Finite (1 / 32768)"
  by (rule binary64_grid [where k = 1 and j = "- 15"]) (simp_all add: power_int_minus_divide)

section \<open>Properties of playback scheduling\<close>

lemma length_int16_view: "length (int16_view bytes) = length bytes div 2"
  by (induction bytes rule: int16_view.induct) simp_all

lemma decodeAudioData_frames:
  assumes "decodeAudioData bytes 24000 n = Inr b"
  shows "0 < frames b \<and> sampleRate b = 24000"
  using assms by (auto simp add: decodeAudioData_def Let_def split: if_splits)

text \<open>A decoded chunk lasts at least \<open>2^-15\<close> s (one frame is \<open>1/24000\<close> s).\<close>

lemma duration_decoded:
  assumes "decodeAudioData bytes 24000 n = Inr b"
  shows "duration b = PosInfinity \<or> (\<exists>x. duration b = Finite x \<and> 1 / 32768 \<le> x)"
proof -
  from decodeAudioData_frames [OF assms] have f: "1 \<le> frames b" and r: "sampleRate b = 24000"
    by simp_all
  have "1 / 32768 \<le> (1 / 24000 :: real)"
    by simp
  also have "\<dots> \<le> real (frames b) / 24000"
    using f by (simp add: divide_right_mono)
  finally have "1 / 32768 \<le> real (frames b) / real (sampleRate b)"
    using r by simp
  from binary64_ge [OF _ binary64_two_powi_m15 this] show ?thesis
    by (simp add: duration_def)
qed

lemma less_eq_number_trans:
  assumes "less_eq_number n (Finite a)" and "a \<le> b"
  shows "less_eq_number n (Finite b)"
  using assms by (cases n) simp_all

lemma Math_max_Finite:
  assumes "Math_max n (Finite c) = Finite t"
  shows "less_eq_number n (Finite t) \<and> c \<le> t \<and> (n = Finite t \<or> t = c)"
  using assms by (cases n) (auto simp add: max_def split: if_splits)

lemma Math_max_lower:
  assumes "less_eq_number (Math_max n (Finite c)) (Finite u)"
  shows "less_eq_number n (Finite u)"
  using assms by (cases n) simp_all

lemma Math_max_is_binary64:
  assumes "is_binary64 n" and "binary64 c = Finite c"
  shows "is_binary64 (Math_max n (Finite c))"
  using assms by (cases n) (simp_all add: max_def)

lemma source_start_Inr:
  "source_start n = Inr t \<longleftrightarrow> n = Finite t \<and> 0 \<le> t"
  by (cases n) auto

text \<open>
  One call of \<^verbatim>\<open>playAudioChunk\<close>: the next-start time it leaves, and what holds of a chunk
  it schedules.
\<close>

lemma playAudioChunk_Scheduled:
  assumes "playAudioChunk atob now src chunk s = (Scheduled t d, s')"
  shows "Math_max (nextStartTimeRef s) (Finite now) = Finite t \<and> 0 \<le> t \<and>
         (\<exists>bytes b. decodeAudioData bytes 24000 1 = Inr b \<and> d = duration b) \<and>
         nextStartTimeRef s' = plus_number (Finite t) d"
  using assms
  by (auto simp add: playAudioChunk_def Let_def console_error_def source_start_Inr
      split: option.splits if_splits sum.splits)

lemma playAudioChunk_not_Scheduled:
  assumes "playAudioChunk atob now src chunk s = (outcome, s')"
    and "\<forall>t d. outcome \<noteq> Scheduled t d"
  shows "nextStartTimeRef s' = nextStartTimeRef s \<or>
         nextStartTimeRef s' = Math_max (nextStartTimeRef s) (Finite now)"
  using assms
  by (auto simp add: playAudioChunk_def Let_def console_error_def
      split: option.splits if_splits sum.splits)

lemma plus_number_after:
  assumes "0 \<le> t" and "binary64 t = Finite t"
    and "d = PosInfinity \<or> (\<exists>x. d = Finite x \<and> 1 / 32768 \<le> x)"
  shows "is_binary64 (plus_number (Finite t) d) \<and>
         (\<forall>u. less_eq_number (plus_number (Finite t) d) (Finite u) \<longrightarrow>
            t \<le> u \<and> (\<exists>x. d = Finite x \<and> 0 < x \<and> (t + x) * (1 - 1 / 2 ^ 53) \<le> u))"
proof (cases d)
  case (Finite x)
  with assms(3) have x: "1 / 32768 \<le> x" by simp
  then have xp: "0 < x" by simp
  have s0: "0 \<le> t + x" and le: "t \<le> t + x" using assms(1) xp by simp_all
  from binary64_ge [OF assms(1,2) le]
  consider "binary64 (t + x) = PosInfinity" | z where "binary64 (t + x) = Finite z" "t \<le> z"
    by blast
  then show ?thesis
  proof cases
    case 1
    with Finite show ?thesis by simp
  next
    case 2
    have "2 powi (- 1022) \<le> (1 / 32768 :: real)"
    proof -
      have "(2::real) powi (- 1022) \<le> 2 powi (- 15)"
        by (rule power_int_increasing) simp_all
      then show ?thesis by (simp add: power_int_minus_divide)
    qed
    also have "\<dots> \<le> t + x" using x assms(1) by simp
    finally have "ulp (t + x) \<le> (t + x) / 2 ^ 52"
      by (rule ulp_relative)
    with binary64_error [OF 2(1)] have "\<bar>z - (t + x)\<bar> \<le> (t + x) / 2 ^ 52 / 2"
      by simp
    then have r: "(t + x) * (1 - 1 / 2 ^ 53) \<le> z"
      by (rule relative_error_bound)
    have "binary64 z = Finite z"
      using s0 2(1) by (rule binary64_idem)
    with Finite 2 r xp show ?thesis
      by auto
  qed
qed (use assms(3) in simp_all)

lemma playAudioChunk_step:
  assumes "playAudioChunk atob now src chunk s = (outcome, s')"
    and "is_binary64 (nextStartTimeRef s)" and "binary64 now = Finite now"
  shows "is_binary64 (nextStartTimeRef s') \<and>
         (\<forall>u. less_eq_number (nextStartTimeRef s') (Finite u) \<longrightarrow>
            less_eq_number (nextStartTimeRef s) (Finite u)) \<and>
         (\<forall>t d. outcome = Scheduled t d \<longrightarrow>
            less_eq_number (nextStartTimeRef s) (Finite t) \<and> now \<le> t \<and>
            nextStartTimeRef s' = plus_number (Finite t) d \<and>
            (\<forall>u. less_eq_number (nextStartTimeRef s') (Finite u) \<longrightarrow>
               t \<le> u \<and> (\<exists>x. d = Finite x \<and> 0 < x \<and> (t + x) * (1 - 1 / 2 ^ 53) \<le> u)))"
proof (cases "\<exists>t d. outcome = Scheduled t d")
  case True
  then obtain t d where o: "outcome = Scheduled t d" by blast
  from playAudioChunk_Scheduled [OF assms(1) [unfolded o]]
  obtain bytes b where m: "Math_max (nextStartTimeRef s) (Finite now) = Finite t" and t0: "0 \<le> t"
    and dec: "decodeAudioData bytes 24000 1 = Inr b" and d: "d = duration b"
    and n: "nextStartTimeRef s' = plus_number (Finite t) d"
    by blast
  from Math_max_Finite [OF m]
  have lo: "less_eq_number (nextStartTimeRef s) (Finite t)" and c: "now \<le> t"
    and e: "nextStartTimeRef s = Finite t \<or> t = now"
    by simp_all
  have bt: "binary64 t = Finite t"
    using e assms(2,3) by auto
  have dd: "d = PosInfinity \<or> (\<exists>x. d = Finite x \<and> 1 / 32768 \<le> x)"
    using duration_decoded [OF dec] d by simp
  note after = plus_number_after [OF t0 bt dd]
  have "less_eq_number (nextStartTimeRef s) (Finite u)"
    if "less_eq_number (nextStartTimeRef s') (Finite u)" for u
  proof -
    from after that n have "t \<le> u" by simp
    with lo show ?thesis by (rule less_eq_number_trans)
  qed
  with after lo c n o show ?thesis
    by simp
next
  case False
  then have no: "\<forall>t d. outcome \<noteq> Scheduled t d" by simp
  from playAudioChunk_not_Scheduled [OF assms(1) no]
  have "nextStartTimeRef s' = nextStartTimeRef s \<or>
        nextStartTimeRef s' = Math_max (nextStartTimeRef s) (Finite now)" .
  then show ?thesis
    using no assms(2,3) Math_max_is_binary64 [OF assms(2,3)] Math_max_lower
    by auto
qed

lemma play_chunks_bounds:
  assumes "play_chunks atob calls s = (outcomes, s')"
    and "is_binary64 (nextStartTimeRef s)"
    and "\<forall>call \<in> set calls. binary64 (fst call) = Finite (fst call)"
  shows "length outcomes = length calls \<and>
         (\<forall>j < length calls. \<forall>t d. outcomes ! j = Scheduled t d \<longrightarrow>
            less_eq_number (nextStartTimeRef s) (Finite t) \<and> fst (calls ! j) \<le> t)"
  using assms
proof (induction calls arbitrary: s outcomes s')
  case Nil
  then show ?case by simp
next
  case (Cons call rest)
  obtain now src chunk where call: "call = (now, src, chunk)"
    by (cases call)
  obtain outcome s1 where step: "playAudioChunk atob now src chunk s = (outcome, s1)"
    by (cases "playAudioChunk atob now src chunk s")
  obtain outs s2 where run: "play_chunks atob rest s1 = (outs, s2)"
    by (cases "play_chunks atob rest s1")
  from Cons.prems(1) call step run have eq: "outcomes = outcome # outs" "s' = s2"
    by simp_all
  have now: "binary64 now = Finite now" and rest: "\<forall>c \<in> set rest. binary64 (fst c) = Finite (fst c)"
    using Cons.prems(3) call by simp_all
  note st = playAudioChunk_step [OF step Cons.prems(2) now]
  then have wf1: "is_binary64 (nextStartTimeRef s1)" by simp
  note ih = Cons.IH [OF run wf1 rest]
  have "less_eq_number (nextStartTimeRef s) (Finite t) \<and> fst ((call # rest) ! j) \<le> t"
    if j: "j < length (call # rest)" and sch: "outcomes ! j = Scheduled t d" for j t d
  proof (cases j)
    case 0
    with sch eq have "outcome = Scheduled t d" by simp
    with st 0 call show ?thesis by simp
  next
    case (Suc k)
    with j sch eq have "k < length rest" and "outs ! k = Scheduled t d"
      by simp_all
    with ih have "less_eq_number (nextStartTimeRef s1) (Finite t) \<and> fst (rest ! k) \<le> t"
      by blast
    with st Suc show ?thesis by simp
  qed
  with ih eq show ?case by simp
qed

lemma play_chunks_order:
  assumes "play_chunks atob calls s = (outcomes, s')"
    and "is_binary64 (nextStartTimeRef s)"
    and "\<forall>call \<in> set calls. binary64 (fst call) = Finite (fst call)"
    and "i < j" and "j < length calls"
    and "outcomes ! i = Scheduled t' d'" and "outcomes ! j = Scheduled t d"
  shows "less_eq_number (plus_number (Finite t') d') (Finite t) \<and> t' \<le> t \<and>
         (\<exists>x. d' = Finite x \<and> 0 < x \<and> (t' + x) * (1 - 1 / 2 ^ 53) \<le> t)"
  using assms
proof (induction calls arbitrary: s outcomes s' i j)
  case Nil
  then show ?case by simp
next
  case (Cons call rest)
  obtain now src chunk where call: "call = (now, src, chunk)"
    by (cases call)
  obtain outcome s1 where step: "playAudioChunk atob now src chunk s = (outcome, s1)"
    by (cases "playAudioChunk atob now src chunk s")
  obtain outs s2 where run: "play_chunks atob rest s1 = (outs, s2)"
    by (cases "play_chunks atob rest s1")
  from Cons.prems(1) call step run have eq: "outcomes = outcome # outs" "s' = s2"
    by simp_all
  have now: "binary64 now = Finite now" and rest: "\<forall>c \<in> set rest. binary64 (fst c) = Finite (fst c)"
    using Cons.prems(3) call by simp_all
  note st = playAudioChunk_step [OF step Cons.prems(2) now]
  then have wf1: "is_binary64 (nextStartTimeRef s1)" by simp
  obtain k where k: "j = Suc k"
    using Cons.prems(4) by (cases j) simp_all
  then have kr: "k < length rest" and ok: "outs ! k = Scheduled t d"
    using Cons.prems(5,7) eq by simp_all
  show ?case
  proof (cases i)
    case 0
    with Cons.prems(6) eq have o: "outcome = Scheduled t' d'" by simp
    have "less_eq_number (nextStartTimeRef s1) (Finite t)"
      using play_chunks_bounds [OF run wf1 rest] kr ok by blast
    with st o show ?thesis by simp
  next
    case (Suc l)
    with Cons.prems(4,6) k eq have "l < k" and "outs ! l = Scheduled t' d'"
      by simp_all
    with Cons.IH [OF run wf1 rest _ kr _ ok] show ?thesis by blast
  qed
qed

lemma playAudioChunk_running:
  assumes "outputAudioContextRef s = Some ctx" and "ctx_state ctx = Running" and "chunk \<noteq> []"
    and "decode atob chunk = Inr bytes" and "decodeAudioData bytes 24000 1 = Inr b"
    and "Math_max (nextStartTimeRef s) (Finite now) = Finite t" and "0 \<le> t"
  shows "playAudioChunk atob now src chunk s =
           (Scheduled t (duration b),
            s\<lparr>nextStartTimeRef := plus_number (Finite t) (duration b),
              audioSourcesRef := set_add src (audioSourcesRef s)\<rparr>)"
  using assms by (simp add: playAudioChunk_def Let_def)

text \<open>
  Claim C1, as amended.  For every run of inbound chunks through \<^verbatim>\<open>playAudioChunk\<close>, from a
  next-start time and with clock readings that are binary64 values: a chunk that is scheduled
  starts at or after the clock read for it and at or after the next-start time the run began
  with; and for every chunk scheduled earlier in the run, with start \<open>t'\<close> and duration \<open>d'\<close>,
  it starts at or after the binary64 sum \<open>t' + d'\<close> (the value the code stored as the next start
  time), at or after \<open>t'\<close> itself, so arrival order is kept, and at or after the exact end
  \<open>t' + d'\<close> less one part in \<open>2^53\<close>, the most the rounding of that sum can take away.
\<close>

theorem playback_follows_rounded_end:
  assumes "play_chunks atob calls s = (outcomes, s')"
    and "is_binary64 (nextStartTimeRef s)"
    and "\<forall>call \<in> set calls. binary64 (fst call) = Finite (fst call)"
    and "j < length calls"
    and "outcomes ! j = Scheduled t d"
  shows "length outcomes = length calls \<and> fst (calls ! j) \<le> t \<and>
         less_eq_number (nextStartTimeRef s) (Finite t) \<and>
         (i < j \<and> outcomes ! i = Scheduled t' d' \<longrightarrow>
            less_eq_number (plus_number (Finite t') d') (Finite t) \<and> t' \<le> t \<and>
            (\<exists>x. d' = Finite x \<and> 0 < x \<and> (t' + x) * (1 - 1 / 2 ^ 53) \<le> t))"
proof -
  from play_chunks_bounds [OF assms(1,2,3)] assms(4,5)
  have len: "length outcomes = length calls"
    and b: "less_eq_number (nextStartTimeRef s) (Finite t) \<and> fst (calls ! j) \<le> t"
    by blast+
  have "less_eq_number (plus_number (Finite t') d') (Finite t) \<and> t' \<le> t \<and>
        (\<exists>x. d' = Finite x \<and> 0 < x \<and> (t' + x) * (1 - 1 / 2 ^ 53) \<le> t)"
    if "i < j \<and> outcomes ! i = Scheduled t' d'"
  proof -
    from that have ij: "i < j" and schi: "outcomes ! i = Scheduled t' d'"
      by simp_all
    from assms(1,2,3) ij assms(4) schi assms(5) show ?thesis
      by (rule play_chunks_order)
  qed
  with len b show ?thesis
    by blast
qed

theorem playback_follows_rounded_end_witness:
  "fst (play_chunks Some
      [(0, \<lparr>source_id = 1, source_stop_throws = False\<rparr>, ''ab''),
       (0, \<lparr>source_id = 2, source_stop_throws = False\<rparr>, ''cd'')]
      (initial_state\<lparr>outputAudioContextRef :=
         Some \<lparr>ctx_state = Running, resume_rejects = False, close_rejects = False\<rparr>\<rparr>))
     = [Scheduled 0 (Finite (6148914691236517 / 2 ^ 67)),
        Scheduled (6148914691236517 / 2 ^ 67) (Finite (6148914691236517 / 2 ^ 67))] \<and>
   less_eq_number (plus_number (Finite 0) (Finite (6148914691236517 / 2 ^ 67)))
     (Finite (6148914691236517 / 2 ^ 67)) \<and>
   (0 + 6148914691236517 / 2 ^ 67) * (1 - 1 / 2 ^ 53) \<le> (6148914691236517 / 2 ^ 67 :: real)"
proof -
  let ?calls = "[(0 :: real, \<lparr>source_id = 1, source_stop_throws = False\<rparr>, ''ab''),
       (0, \<lparr>source_id = 2, source_stop_throws = False\<rparr>, ''cd'')]"
  let ?s = "initial_state\<lparr>outputAudioContextRef :=
         Some \<lparr>ctx_state = Running, resume_rejects = False, close_rejects = False\<rparr>\<rparr>"
  let ?d = "6148914691236517 / 2 ^ 67 :: real"
  let ?outs = "[Scheduled 0 (Finite ?d), Scheduled ?d (Finite ?d)]"
  have d1: "decodeAudioData [97, 98] 24000 (Suc 0)
      = Inr \<lparr>sampleRate = 24000, frames = 1,
             channelData = [[Finite (real_of_int (sint (25185 :: 16 word)) / 32768)]]\<rparr>"
    by (simp add: decodeAudioData_def Let_def)
  have d2: "decodeAudioData [99, 100] 24000 (Suc 0)
      = Inr \<lparr>sampleRate = 24000, frames = 1,
             channelData = [[Finite (real_of_int (sint (25699 :: 16 word)) / 32768)]]\<rparr>"
    by (simp add: decodeAudioData_def Let_def)
  have run: "fst (play_chunks Some ?calls ?s) = ?outs"
    by (simp add: playAudioChunk_def decode_def d1 d2 initial_state_def duration_def set_add_def
        Let_def binary64_def ulp_def exponent_def compute_bitlen round_half_even_def
        power_int_minus)
  obtain s' where r: "play_chunks Some ?calls ?s = (?outs, s')"
    using run by (cases "play_chunks Some ?calls ?s") simp
  have w: "is_binary64 (nextStartTimeRef ?s)"
    by (simp add: initial_state_def)
  have c: "\<forall>call \<in> set ?calls. binary64 (fst call) = Finite (fst call)"
    by simp
  have j: "1 < length ?calls"
    by simp
  have o: "?outs ! 1 = Scheduled ?d (Finite ?d)"
    by simp
  from playback_follows_rounded_end [OF r w c j o, of 0 0 "Finite ?d"]
  have "less_eq_number (plus_number (Finite 0) (Finite ?d)) (Finite ?d) \<and>
        (\<exists>x. Finite ?d = Finite x \<and> 0 < x \<and> (0 + x) * (1 - 1 / 2 ^ 53) \<le> ?d)"
    by simp
  then have "less_eq_number (plus_number (Finite 0) (Finite ?d)) (Finite ?d) \<and>
        (0 + ?d) * (1 - 1 / 2 ^ 53) \<le> ?d"
    by simp
  with run show ?thesis
    by (simp only: simp_thms)
qed

text \<open>
  Claim C1 as stated fails, by rounding.  The output clock reads \<open>128 / 24000\<close> s (one render
  quantum), as the binary64 value \<open>6148914691236517 / 2^60\<close>, when two chunks of 4800 frames
  (9600 bytes, a fifth of a second) arrive.  The first starts at the clock reading; its
  duration is the binary64 value of \<open>1/5\<close>; the sum stored as the next start time is rounded
  down, so the second chunk starts \<open>5 / 2^60\<close> s before the first one ends.
\<close>

theorem playback_overlaps_by_rounding:
  "binary64 (128 / 24000) = Finite (6148914691236517 / 2 ^ 60) \<and>
   fst (play_chunks (\<lambda>base64. Some (replicate 9600 CHR ''a''))
      [(6148914691236517 / 2 ^ 60, \<lparr>source_id = 1, source_stop_throws = False\<rparr>, ''chunk''),
       (6148914691236517 / 2 ^ 60, \<lparr>source_id = 2, source_stop_throws = False\<rparr>, ''chunk'')]
      (initial_state\<lparr>outputAudioContextRef :=
         Some \<lparr>ctx_state = Running, resume_rejects = False, close_rejects = False\<rparr>\<rparr>))
     = [Scheduled (6148914691236517 / 2 ^ 60) (Finite (3602879701896397 / 2 ^ 54)),
        Scheduled (7397912987893935 / 2 ^ 55) (Finite (3602879701896397 / 2 ^ 54))] \<and>
   (6148914691236517 / 2 ^ 60 + 3602879701896397 / 2 ^ 54 :: real) - 7397912987893935 / 2 ^ 55
     = 5 / 2 ^ 60"
proof -
  define atob where "atob = (\<lambda>base64 :: string. Some (replicate 9600 CHR ''a''))"
  define bytes :: "8 word list" where "bytes = map of_char (replicate 9600 CHR ''a'')"
  let ?c = "6148914691236517 / 2 ^ 60 :: real"
  let ?d = "3602879701896397 / 2 ^ 54 :: real"
  let ?n = "7397912987893935 / 2 ^ 55 :: real"
  let ?ctx = "\<lparr>ctx_state = Running, resume_rejects = False, close_rejects = False\<rparr>"
  let ?src1 = "\<lparr>source_id = 1, source_stop_throws = False\<rparr>"
  let ?src2 = "\<lparr>source_id = 2, source_stop_throws = False\<rparr>"
  let ?s = "initial_state\<lparr>outputAudioContextRef := Some ?ctx\<rparr>"
  let ?s1 = "?s\<lparr>nextStartTimeRef := Finite ?n, audioSourcesRef := [?src1]\<rparr>"
  have clock: "binary64 (128 / 24000) = Finite ?c"
    by (simp add: binary64_def ulp_def exponent_def compute_bitlen round_half_even_def Let_def
        power_int_minus)
  have len: "length bytes = 9600" "bytes \<noteq> []"
    by (auto simp add: bytes_def)
  then have "even (length bytes)"
    by simp
  from decodeAudioData_mono [OF this len(2), of 24000]
  obtain b where dec: "decodeAudioData bytes 24000 1 = Inr b"
    and fr: "frames b = length (int16_view bytes)" and ra: "sampleRate b = 24000"
    by simp
  have "frames b = 4800"
    using fr len by (simp add: length_int16_view)
  then have dur: "duration b = Finite ?d"
    using ra
    by (simp add: duration_def binary64_def ulp_def exponent_def compute_bitlen
        round_half_even_def Let_def power_int_minus)
  have dc: "decode atob ''chunk'' = Inr bytes"
    by (simp add: decode_def atob_def bytes_def)
  have m1: "Math_max (nextStartTimeRef ?s) (Finite ?c) = Finite ?c"
    by (simp add: initial_state_def)
  have step1: "playAudioChunk atob ?c ?src1 ''chunk'' ?s = (Scheduled ?c (Finite ?d), ?s1)"
    using playAudioChunk_running [OF _ _ _ dc dec m1, of ?ctx ?src1]
    by (simp add: dur set_add_def initial_state_def binary64_def ulp_def exponent_def
        compute_bitlen round_half_even_def Let_def power_int_minus)
  have m2: "Math_max (nextStartTimeRef ?s1) (Finite ?c) = Finite ?n"
    by simp
  obtain s2 where step2: "playAudioChunk atob ?c ?src2 ''chunk'' ?s1 = (Scheduled ?n (Finite ?d), s2)"
    using playAudioChunk_running [OF _ _ _ dc dec m2, of ?ctx ?src2]
    by (simp add: dur)
  have "fst (play_chunks atob [(?c, ?src1, ''chunk''), (?c, ?src2, ''chunk'')] ?s)
      = [Scheduled ?c (Finite ?d), Scheduled ?n (Finite ?d)]"
    by (simp only: play_chunks.simps step1 step2 prod.case fst_conv)
  moreover have "?c + ?d - ?n = 5 / 2 ^ 60"
    by simp
  ultimately show ?thesis
    using clock unfolding atob_def by blast
qed


section \<open>Properties of teardown\<close>


lemma close_live_session_fields [simp]:
  "liveSessionRef (close_live_session s) = None"
  "localStreamRef (close_live_session s) = localStreamRef s"
  "scriptProcessorRef (close_live_session s) = scriptProcessorRef s"
  "mediaStreamSourceRef (close_live_session s) = mediaStreamSourceRef s"
  "inputAudioContextRef (close_live_session s) = inputAudioContextRef s"
  "audioSourcesRef (close_live_session s) = audioSourcesRef s"
  "outputAudioContextRef (close_live_session s) = outputAudioContextRef s"
  "nextStartTimeRef (close_live_session s) = nextStartTimeRef s"
  "react (close_live_session s) = react s"
  "requests (close_live_session s) = requests s"
  "inactivityTimer (close_live_session s) = inactivityTimer s"
  "sessionCallbacks (close_live_session s) = sessionCallbacks s"
  "streetViewInstance (close_live_session s) = streetViewInstance s"
  "console (close_live_session s) =
     console s @ logged (holds_on session_close_throws (liveSessionRef s)) ''Error closing live session:''"
  "pending_catch (close_live_session s) = pending_catch s"
  "host_calls (close_live_session s) = host_calls s @ called (holds_on (\<lambda>x. \<not> session_close_throws x) (liveSessionRef s)) SessionClose"
  by (simp_all add: close_live_session_def console_error_def host_call_def catch_later_def logged_def called_def
      holds_on_def split: option.splits)

lemma disconnect_script_processor_fields [simp]:
  "liveSessionRef (disconnect_script_processor s) = liveSessionRef s"
  "localStreamRef (disconnect_script_processor s) = localStreamRef s"
  "scriptProcessorRef (disconnect_script_processor s) = None"
  "mediaStreamSourceRef (disconnect_script_processor s) = mediaStreamSourceRef s"
  "inputAudioContextRef (disconnect_script_processor s) = inputAudioContextRef s"
  "audioSourcesRef (disconnect_script_processor s) = audioSourcesRef s"
  "outputAudioContextRef (disconnect_script_processor s) = outputAudioContextRef s"
  "nextStartTimeRef (disconnect_script_processor s) = nextStartTimeRef s"
  "react (disconnect_script_processor s) = react s"
  "requests (disconnect_script_processor s) = requests s"
  "inactivityTimer (disconnect_script_processor s) = inactivityTimer s"
  "sessionCallbacks (disconnect_script_processor s) = sessionCallbacks s"
  "streetViewInstance (disconnect_script_processor s) = streetViewInstance s"
  "console (disconnect_script_processor s) =
     console s @ logged (holds_on disconnect_throws (scriptProcessorRef s)) ''Error disconnecting script processor:''"
  "pending_catch (disconnect_script_processor s) = pending_catch s"
  "host_calls (disconnect_script_processor s) = host_calls s @ called (holds_on (\<lambda>x. \<not> disconnect_throws x) (scriptProcessorRef s)) ProcessorDisconnect"
  by (simp_all add: disconnect_script_processor_def console_error_def host_call_def catch_later_def logged_def called_def
      holds_on_def split: option.splits)

lemma disconnect_media_stream_source_fields [simp]:
  "liveSessionRef (disconnect_media_stream_source s) = liveSessionRef s"
  "localStreamRef (disconnect_media_stream_source s) = localStreamRef s"
  "scriptProcessorRef (disconnect_media_stream_source s) = scriptProcessorRef s"
  "mediaStreamSourceRef (disconnect_media_stream_source s) = None"
  "inputAudioContextRef (disconnect_media_stream_source s) = inputAudioContextRef s"
  "audioSourcesRef (disconnect_media_stream_source s) = audioSourcesRef s"
  "outputAudioContextRef (disconnect_media_stream_source s) = outputAudioContextRef s"
  "nextStartTimeRef (disconnect_media_stream_source s) = nextStartTimeRef s"
  "react (disconnect_media_stream_source s) = react s"
  "requests (disconnect_media_stream_source s) = requests s"
  "inactivityTimer (disconnect_media_stream_source s) = inactivityTimer s"
  "sessionCallbacks (disconnect_media_stream_source s) = sessionCallbacks s"
  "streetViewInstance (disconnect_media_stream_source s) = streetViewInstance s"
  "console (disconnect_media_stream_source s) =
     console s @ logged (holds_on disconnect_throws (mediaStreamSourceRef s)) ''Error disconnecting media stream source:''"
  "pending_catch (disconnect_media_stream_source s) = pending_catch s"
  "host_calls (disconnect_media_stream_source s) = host_calls s @ called (holds_on (\<lambda>x. \<not> disconnect_throws x) (mediaStreamSourceRef s)) MediaSourceDisconnect"
  by (simp_all add: disconnect_media_stream_source_def console_error_def host_call_def catch_later_def logged_def called_def
      holds_on_def split: option.splits)

lemma close_input_context_fields [simp]:
  "liveSessionRef (close_input_context s) = liveSessionRef s"
  "localStreamRef (close_input_context s) = localStreamRef s"
  "scriptProcessorRef (close_input_context s) = scriptProcessorRef s"
  "mediaStreamSourceRef (close_input_context s) = mediaStreamSourceRef s"
  "inputAudioContextRef (close_input_context s) = None"
  "audioSourcesRef (close_input_context s) = audioSourcesRef s"
  "outputAudioContextRef (close_input_context s) = outputAudioContextRef s"
  "nextStartTimeRef (close_input_context s) = nextStartTimeRef s"
  "react (close_input_context s) = react s"
  "requests (close_input_context s) = requests s"
  "inactivityTimer (close_input_context s) = inactivityTimer s"
  "sessionCallbacks (close_input_context s) = sessionCallbacks s"
  "streetViewInstance (close_input_context s) = streetViewInstance s"
  "console (close_input_context s) = console s"
  "pending_catch (close_input_context s) = pending_catch s
       @ logged (holds_on (\<lambda>c. ctx_state c \<noteq> Closed \<and> close_rejects c) (inputAudioContextRef s))
           ''Error closing input audio context:''"
  "host_calls (close_input_context s) = host_calls s @ called (holds_on (\<lambda>c. ctx_state c \<noteq> Closed \<and> \<not> close_rejects c) (inputAudioContextRef s)) InputContextClose"
  by (simp_all add: close_input_context_def console_error_def host_call_def catch_later_def logged_def called_def
      holds_on_def split: option.splits)

lemma close_output_context_fields [simp]:
  "liveSessionRef (close_output_context s) = liveSessionRef s"
  "localStreamRef (close_output_context s) = localStreamRef s"
  "scriptProcessorRef (close_output_context s) = scriptProcessorRef s"
  "mediaStreamSourceRef (close_output_context s) = mediaStreamSourceRef s"
  "inputAudioContextRef (close_output_context s) = inputAudioContextRef s"
  "audioSourcesRef (close_output_context s) = audioSourcesRef s"
  "outputAudioContextRef (close_output_context s) = None"
  "nextStartTimeRef (close_output_context s) = nextStartTimeRef s"
  "react (close_output_context s) = react s"
  "requests (close_output_context s) = requests s"
  "inactivityTimer (close_output_context s) = inactivityTimer s"
  "sessionCallbacks (close_output_context s) = sessionCallbacks s"
  "streetViewInstance (close_output_context s) = streetViewInstance s"
  "console (close_output_context s) = console s"
  "pending_catch (close_output_context s) = pending_catch s
       @ logged (holds_on (\<lambda>c. ctx_state c \<noteq> Closed \<and> close_rejects c) (outputAudioContextRef s))
           ''Error closing output audio context:''"
  "host_calls (close_output_context s) = host_calls s @ called (holds_on (\<lambda>c. ctx_state c \<noteq> Closed \<and> \<not> close_rejects c) (outputAudioContextRef s)) OutputContextClose"
  by (simp_all add: close_output_context_def console_error_def host_call_def catch_later_def logged_def called_def
      holds_on_def split: option.splits)

lemma stop_sources_fields [simp]:
  "liveSessionRef (stop_sources xs s) = liveSessionRef s"
  "localStreamRef (stop_sources xs s) = localStreamRef s"
  "scriptProcessorRef (stop_sources xs s) = scriptProcessorRef s"
  "mediaStreamSourceRef (stop_sources xs s) = mediaStreamSourceRef s"
  "inputAudioContextRef (stop_sources xs s) = inputAudioContextRef s"
  "audioSourcesRef (stop_sources xs s) = audioSourcesRef s"
  "outputAudioContextRef (stop_sources xs s) = outputAudioContextRef s"
  "nextStartTimeRef (stop_sources xs s) = nextStartTimeRef s"
  "react (stop_sources xs s) = react s"
  "requests (stop_sources xs s) = requests s"
  "inactivityTimer (stop_sources xs s) = inactivityTimer s"
  "sessionCallbacks (stop_sources xs s) = sessionCallbacks s"
  "streetViewInstance (stop_sources xs s) = streetViewInstance s"
  "pending_catch (stop_sources xs s) = pending_catch s"
  by (induction xs s rule: stop_sources.induct; simp add: console_error_def host_call_def)+

lemma stop_sources_console [simp]:
  "console (stop_sources xs s) =
     console s @ logged (list_ex source_stop_throws xs) ''Error stopping audio sources:''"
  by (induction xs s rule: stop_sources.induct)
    (simp_all add: console_error_def host_call_def logged_def)

lemma stop_sources_calls [simp]:
  "host_calls (stop_sources xs s) =
     host_calls s
       @ map (\<lambda>x. SourceStop (source_id x)) (takeWhile (\<lambda>x. \<not> source_stop_throws x) xs)"
  by (induction xs s rule: stop_sources.induct)
    (simp_all add: console_error_def host_call_def)

lemma stop_all_sources_fields [simp]:
  "liveSessionRef (stop_all_sources s) = liveSessionRef s"
  "localStreamRef (stop_all_sources s) = localStreamRef s"
  "scriptProcessorRef (stop_all_sources s) = scriptProcessorRef s"
  "mediaStreamSourceRef (stop_all_sources s) = mediaStreamSourceRef s"
  "inputAudioContextRef (stop_all_sources s) = inputAudioContextRef s"
  "audioSourcesRef (stop_all_sources s) = []"
  "outputAudioContextRef (stop_all_sources s) = outputAudioContextRef s"
  "nextStartTimeRef (stop_all_sources s) = nextStartTimeRef s"
  "react (stop_all_sources s) = react s"
  "requests (stop_all_sources s) = requests s"
  "inactivityTimer (stop_all_sources s) = inactivityTimer s"
  "sessionCallbacks (stop_all_sources s) = sessionCallbacks s"
  "streetViewInstance (stop_all_sources s) = streetViewInstance s"
  "console (stop_all_sources s) =
     console s @ logged (list_ex source_stop_throws (audioSourcesRef s)) ''Error stopping audio sources:''"
  "pending_catch (stop_all_sources s) = pending_catch s"
  "host_calls (stop_all_sources s) =
     host_calls s
       @ map (\<lambda>x. SourceStop (source_id x))
           (takeWhile (\<lambda>x. \<not> source_stop_throws x) (audioSourcesRef s))"
  by (simp_all add: stop_all_sources_def)

lemma stopped_sources_called [simp]:
  "stopped_sources (called b SessionClose) = []"
  "stopped_sources (called b ProcessorDisconnect) = []"
  "stopped_sources (called b MediaSourceDisconnect) = []"
  "stopped_sources (called b InputContextClose) = []"
  "stopped_sources (called b OutputContextClose) = []"
  by (simp_all add: called_def)

lemma stopped_sources_tracks [simp]:
  "stopped_sources (map (\<lambda>t. TrackStop (track_id t)) ts) = []"
  by (induction ts) simp_all

lemma stopped_sources_stops [simp]:
  "stopped_sources (map (\<lambda>x. SourceStop (source_id x)) xs) = map source_id xs"
  by (induction xs) simp_all

lemma stop_tracks_quiet:
  assumes "\<not> list_ex track_stop_throws ts"
  shows "stop_tracks ts s = (Normal, s\<lparr>host_calls := host_calls s @ map (\<lambda>t. TrackStop (track_id t)) ts\<rparr>)"
  using assms by (induction ts s rule: stop_tracks.induct) (simp_all add: host_call_def)

text \<open>The calls made on the tracks of the capture stream, if there is one.\<close>

lemma stop_local_stream_quiet:
  assumes "tracks_stop_quietly s"
  shows "\<exists>s1. stop_local_stream s = (Normal, s1) \<and>
     liveSessionRef s1 = liveSessionRef s \<and> localStreamRef s1 = None \<and>
     scriptProcessorRef s1 = scriptProcessorRef s \<and>
     mediaStreamSourceRef s1 = mediaStreamSourceRef s \<and>
     inputAudioContextRef s1 = inputAudioContextRef s \<and>
     audioSourcesRef s1 = audioSourcesRef s \<and>
     outputAudioContextRef s1 = outputAudioContextRef s \<and>
     nextStartTimeRef s1 = nextStartTimeRef s \<and> react s1 = react s \<and>
     requests s1 = requests s \<and> inactivityTimer s1 = inactivityTimer s \<and>
     sessionCallbacks s1 = sessionCallbacks s \<and> streetViewInstance s1 = streetViewInstance s \<and>
     console s1 = console s \<and> pending_catch s1 = pending_catch s \<and>
     host_calls s1 = host_calls s
       @ (case localStreamRef s of
            None \<Rightarrow> []
          | Some stream \<Rightarrow> map (\<lambda>t. TrackStop (track_id t)) (tracks stream))"
proof (cases "localStreamRef s")
  case None
  then show ?thesis by (simp add: stop_local_stream_def)
next
  case (Some stream)
  with assms have "\<not> list_ex track_stop_throws (tracks stream)"
    by (simp add: tracks_stop_quietly_def)
  then have "stop_tracks (tracks stream) s =
      (Normal, s\<lparr>host_calls := host_calls s @ map (\<lambda>t. TrackStop (track_id t)) (tracks stream)\<rparr>)"
    by (rule stop_tracks_quiet)
  with Some show ?thesis
    by (simp add: stop_local_stream_def)
qed

text \<open>
  The reaper on a session whose capture tracks stop without raising: it returns, every
  resource is released, each call that succeeded is in the log of host calls and each step
  that failed left its line, on the console at once or with the handlers that run later, and
  nothing else changed.
\<close>

lemma cleanup_quiet:
  assumes "tracks_stop_quietly s"
  shows "\<exists>s'. cleanupAudioAndSession s = (Normal, s') \<and> released s' \<and>
     host_calls s' = host_calls s
       @ called (holds_on (\<lambda>x. \<not> session_close_throws x) (liveSessionRef s)) SessionClose
       @ (case localStreamRef s of
            None \<Rightarrow> []
          | Some stream \<Rightarrow> map (\<lambda>t. TrackStop (track_id t)) (tracks stream))
       @ called (holds_on (\<lambda>x. \<not> disconnect_throws x) (scriptProcessorRef s)) ProcessorDisconnect
       @ called (holds_on (\<lambda>x. \<not> disconnect_throws x) (mediaStreamSourceRef s))
           MediaSourceDisconnect
       @ called (holds_on (\<lambda>c. ctx_state c \<noteq> Closed \<and> \<not> close_rejects c)
                   (inputAudioContextRef s)) InputContextClose
       @ map (\<lambda>x. SourceStop (source_id x))
           (takeWhile (\<lambda>x. \<not> source_stop_throws x) (audioSourcesRef s))
       @ called (holds_on (\<lambda>c. ctx_state c \<noteq> Closed \<and> \<not> close_rejects c)
                   (outputAudioContextRef s)) OutputContextClose \<and>
     console s' = console s
       @ logged (holds_on session_close_throws (liveSessionRef s)) ''Error closing live session:''
       @ logged (holds_on disconnect_throws (scriptProcessorRef s))
           ''Error disconnecting script processor:''
       @ logged (holds_on disconnect_throws (mediaStreamSourceRef s))
           ''Error disconnecting media stream source:''
       @ logged (list_ex source_stop_throws (audioSourcesRef s)) ''Error stopping audio sources:'' \<and>
     pending_catch s' = pending_catch s
       @ logged (holds_on (\<lambda>c. ctx_state c \<noteq> Closed \<and> close_rejects c) (inputAudioContextRef s))
           ''Error closing input audio context:''
       @ logged (holds_on (\<lambda>c. ctx_state c \<noteq> Closed \<and> close_rejects c) (outputAudioContextRef s))
           ''Error closing output audio context:'' \<and>
     nextStartTimeRef s' = nextStartTimeRef s \<and>
     react s' = (react s)\<lparr>isRecording := False, isNpcSpeaking := False\<rparr> \<and>
     requests s' = requests s \<and> inactivityTimer s' = inactivityTimer s \<and>
     sessionCallbacks s' = sessionCallbacks s \<and> streetViewInstance s' = streetViewInstance s"
proof -
  have "tracks_stop_quietly (close_live_session s)"
    using assms by (simp add: tracks_stop_quietly_def)
  from stop_local_stream_quiet [OF this]
  obtain s1 where s1: "stop_local_stream (close_live_session s) = (Normal, s1)"
    and f: "liveSessionRef s1 = None" "localStreamRef s1 = None"
      "scriptProcessorRef s1 = scriptProcessorRef s"
      "mediaStreamSourceRef s1 = mediaStreamSourceRef s"
      "inputAudioContextRef s1 = inputAudioContextRef s"
      "audioSourcesRef s1 = audioSourcesRef s"
      "outputAudioContextRef s1 = outputAudioContextRef s"
      "nextStartTimeRef s1 = nextStartTimeRef s" "react s1 = react s"
      "requests s1 = requests s" "inactivityTimer s1 = inactivityTimer s"
      "sessionCallbacks s1 = sessionCallbacks s" "streetViewInstance s1 = streetViewInstance s"
      "console s1 = console s
         @ logged (holds_on session_close_throws (liveSessionRef s)) ''Error closing live session:''"
      "pending_catch s1 = pending_catch s"
      "host_calls s1 = host_calls s
         @ called (holds_on (\<lambda>x. \<not> session_close_throws x) (liveSessionRef s)) SessionClose
         @ (case localStreamRef s of
              None \<Rightarrow> []
            | Some stream \<Rightarrow> map (\<lambda>t. TrackStop (track_id t)) (tracks stream))"
    by auto
  show ?thesis
    by (simp add: cleanupAudioAndSession_def s1 f Let_def released_def setIsNpcSpeaking_def
        setIsRecording_def)
qed

lemma cleanup_released:
  assumes "released s"
  shows "cleanupAudioAndSession s = (Normal, s)"
  using assms
  by (cases s, cases "react s")
    (simp add: released_def cleanupAudioAndSession_def close_live_session_def
      stop_local_stream_def disconnect_script_processor_def disconnect_media_stream_source_def
      close_input_context_def stop_all_sources_def close_output_context_def
      setIsNpcSpeaking_def setIsRecording_def Let_def)

lemma cleanup_times_released:
  assumes "released s"
  shows "cleanup_times n s = (Normal, s)"
  using assms by (induction n) (simp_all add: cleanup_released)

text \<open>
  Claim C4.  \<^verbatim>\<open>cleanupAudioAndSession\<close>, on whatever was or was not acquired, where the
  tracks of the capture stream stop without raising (the loop over them is the one step
  written without a handler, and \<^verbatim>\<open>MediaStreamTrack.stop()\<close> raises nothing): it returns
  normally and leaves every resource released.  Each step runs whatever the steps before it
  did: the log of host calls holds the close, stop and disconnect of every resource that was
  there and did not fail, in step order, and every failure is logged: at once for the channel,
  the two nodes and the playback sources, and by the \<^verbatim>\<open>.catch\<close> handler, in a later job, for
  the two audio contexts.  A second invocation, and any further number of them, returns
  normally and changes nothing.
\<close>

theorem reaper_releases_all_resources:
  assumes "tracks_stop_quietly s"
  shows "case cleanupAudioAndSession s of
           (c, s') \<Rightarrow>
             c = Normal \<and> released s' \<and>
             host_calls s' = host_calls s
               @ called (holds_on (\<lambda>x. \<not> session_close_throws x) (liveSessionRef s)) SessionClose
               @ (case localStreamRef s of
                    None \<Rightarrow> []
                  | Some stream \<Rightarrow> map (\<lambda>t. TrackStop (track_id t)) (tracks stream))
               @ called (holds_on (\<lambda>x. \<not> disconnect_throws x) (scriptProcessorRef s))
                   ProcessorDisconnect
               @ called (holds_on (\<lambda>x. \<not> disconnect_throws x) (mediaStreamSourceRef s))
                   MediaSourceDisconnect
               @ called (holds_on (\<lambda>c. ctx_state c \<noteq> Closed \<and> \<not> close_rejects c)
                           (inputAudioContextRef s)) InputContextClose
               @ map (\<lambda>x. SourceStop (source_id x))
                   (takeWhile (\<lambda>x. \<not> source_stop_throws x) (audioSourcesRef s))
               @ called (holds_on (\<lambda>c. ctx_state c \<noteq> Closed \<and> \<not> close_rejects c)
                           (outputAudioContextRef s)) OutputContextClose \<and>
             console s' = console s
               @ logged (holds_on session_close_throws (liveSessionRef s))
                   ''Error closing live session:''
               @ logged (holds_on disconnect_throws (scriptProcessorRef s))
                   ''Error disconnecting script processor:''
               @ logged (holds_on disconnect_throws (mediaStreamSourceRef s))
                   ''Error disconnecting media stream source:''
               @ logged (list_ex source_stop_throws (audioSourcesRef s))
                   ''Error stopping audio sources:'' \<and>
             pending_catch s' = pending_catch s
               @ logged (holds_on (\<lambda>c. ctx_state c \<noteq> Closed \<and> close_rejects c)
                           (inputAudioContextRef s))
                   ''Error closing input audio context:''
               @ logged (holds_on (\<lambda>c. ctx_state c \<noteq> Closed \<and> close_rejects c)
                           (outputAudioContextRef s))
                   ''Error closing output audio context:'' \<and>
             console (run_catch_handlers s') = console s' @ pending_catch s' \<and>
             cleanupAudioAndSession s' = (Normal, s') \<and>
             cleanup_times (Suc n) s = (Normal, s')"
proof -
  from cleanup_quiet [OF assms]
  obtain s' where c: "cleanupAudioAndSession s = (Normal, s')" and r: "released s'"
    and h: "host_calls s' = host_calls s
       @ called (holds_on (\<lambda>x. \<not> session_close_throws x) (liveSessionRef s)) SessionClose
       @ (case localStreamRef s of
            None \<Rightarrow> []
          | Some stream \<Rightarrow> map (\<lambda>t. TrackStop (track_id t)) (tracks stream))
       @ called (holds_on (\<lambda>x. \<not> disconnect_throws x) (scriptProcessorRef s)) ProcessorDisconnect
       @ called (holds_on (\<lambda>x. \<not> disconnect_throws x) (mediaStreamSourceRef s))
           MediaSourceDisconnect
       @ called (holds_on (\<lambda>c. ctx_state c \<noteq> Closed \<and> \<not> close_rejects c)
                   (inputAudioContextRef s)) InputContextClose
       @ map (\<lambda>x. SourceStop (source_id x))
           (takeWhile (\<lambda>x. \<not> source_stop_throws x) (audioSourcesRef s))
       @ called (holds_on (\<lambda>c. ctx_state c \<noteq> Closed \<and> \<not> close_rejects c)
                   (outputAudioContextRef s)) OutputContextClose"
    and l: "console s' = console s
       @ logged (holds_on session_close_throws (liveSessionRef s)) ''Error closing live session:''
       @ logged (holds_on disconnect_throws (scriptProcessorRef s))
           ''Error disconnecting script processor:''
       @ logged (holds_on disconnect_throws (mediaStreamSourceRef s))
           ''Error disconnecting media stream source:''
       @ logged (list_ex source_stop_throws (audioSourcesRef s)) ''Error stopping audio sources:''"
    and p: "pending_catch s' = pending_catch s
       @ logged (holds_on (\<lambda>c. ctx_state c \<noteq> Closed \<and> close_rejects c) (inputAudioContextRef s))
           ''Error closing input audio context:''
       @ logged (holds_on (\<lambda>c. ctx_state c \<noteq> Closed \<and> close_rejects c) (outputAudioContextRef s))
           ''Error closing output audio context:''"
    by blast
  have "cleanupAudioAndSession s' = (Normal, s')"
    using r by (rule cleanup_released)
  moreover have "cleanup_times (Suc n) s = (Normal, s')"
    using c r by (simp add: cleanup_times_released)
  moreover have "console (run_catch_handlers s') = console s' @ pending_catch s'"
    by (simp add: run_catch_handlers_def)
  ultimately show ?thesis
    using c r h l p by simp
qed

theorem reaper_releases_all_resources_witness:
  "tracks_stop_quietly
     (initial_state
        \<lparr>liveSessionRef := Some \<lparr>session_close_throws = True\<rparr>,
         inputAudioContextRef :=
           Some \<lparr>ctx_state = Running, resume_rejects = False, close_rejects = True\<rparr>,
         outputAudioContextRef :=
           Some \<lparr>ctx_state = Running, resume_rejects = False, close_rejects = False\<rparr>,
         scriptProcessorRef := Some \<lparr>disconnect_throws = True\<rparr>,
         localStreamRef := Some \<lparr>tracks = [\<lparr>track_id = 0, track_stop_throws = False\<rparr>]\<rparr>,
         mediaStreamSourceRef := Some \<lparr>disconnect_throws = False\<rparr>,
         audioSourcesRef := [\<lparr>source_id = 1, source_stop_throws = False\<rparr>,
                             \<lparr>source_id = 2, source_stop_throws = True\<rparr>]\<rparr>) \<and>
   fst (cleanupAudioAndSession
     (initial_state
        \<lparr>liveSessionRef := Some \<lparr>session_close_throws = True\<rparr>,
         inputAudioContextRef :=
           Some \<lparr>ctx_state = Running, resume_rejects = False, close_rejects = True\<rparr>,
         outputAudioContextRef :=
           Some \<lparr>ctx_state = Running, resume_rejects = False, close_rejects = False\<rparr>,
         scriptProcessorRef := Some \<lparr>disconnect_throws = True\<rparr>,
         localStreamRef := Some \<lparr>tracks = [\<lparr>track_id = 0, track_stop_throws = False\<rparr>]\<rparr>,
         mediaStreamSourceRef := Some \<lparr>disconnect_throws = False\<rparr>,
         audioSourcesRef := [\<lparr>source_id = 1, source_stop_throws = False\<rparr>,
                             \<lparr>source_id = 2, source_stop_throws = True\<rparr>]\<rparr>)) = Normal \<and>
   released (snd (cleanupAudioAndSession
     (initial_state
        \<lparr>liveSessionRef := Some \<lparr>session_close_throws = True\<rparr>,
         inputAudioContextRef :=
           Some \<lparr>ctx_state = Running, resume_rejects = False, close_rejects = True\<rparr>,
         outputAudioContextRef :=
           Some \<lparr>ctx_state = Running, resume_rejects = False, close_rejects = False\<rparr>,
         scriptProcessorRef := Some \<lparr>disconnect_throws = True\<rparr>,
         localStreamRef := Some \<lparr>tracks = [\<lparr>track_id = 0, track_stop_throws = False\<rparr>]\<rparr>,
         mediaStreamSourceRef := Some \<lparr>disconnect_throws = False\<rparr>,
         audioSourcesRef := [\<lparr>source_id = 1, source_stop_throws = False\<rparr>,
                             \<lparr>source_id = 2, source_stop_throws = True\<rparr>]\<rparr>))) \<and>
   host_calls (snd (cleanupAudioAndSession
     (initial_state
        \<lparr>liveSessionRef := Some \<lparr>session_close_throws = True\<rparr>,
         inputAudioContextRef :=
           Some \<lparr>ctx_state = Running, resume_rejects = False, close_rejects = True\<rparr>,
         outputAudioContextRef :=
           Some \<lparr>ctx_state = Running, resume_rejects = False, close_rejects = False\<rparr>,
         scriptProcessorRef := Some \<lparr>disconnect_throws = True\<rparr>,
         localStreamRef := Some \<lparr>tracks = [\<lparr>track_id = 0, track_stop_throws = False\<rparr>]\<rparr>,
         mediaStreamSourceRef := Some \<lparr>disconnect_throws = False\<rparr>,
         audioSourcesRef := [\<lparr>source_id = 1, source_stop_throws = False\<rparr>,
                             \<lparr>source_id = 2, source_stop_throws = True\<rparr>]\<rparr>)))
     = [TrackStop 0, MediaSourceDisconnect, SourceStop 1, OutputContextClose] \<and>
   console (snd (cleanupAudioAndSession
     (initial_state
        \<lparr>liveSessionRef := Some \<lparr>session_close_throws = True\<rparr>,
         inputAudioContextRef :=
           Some \<lparr>ctx_state = Running, resume_rejects = False, close_rejects = True\<rparr>,
         outputAudioContextRef :=
           Some \<lparr>ctx_state = Running, resume_rejects = False, close_rejects = False\<rparr>,
         scriptProcessorRef := Some \<lparr>disconnect_throws = True\<rparr>,
         localStreamRef := Some \<lparr>tracks = [\<lparr>track_id = 0, track_stop_throws = False\<rparr>]\<rparr>,
         mediaStreamSourceRef := Some \<lparr>disconnect_throws = False\<rparr>,
         audioSourcesRef := [\<lparr>source_id = 1, source_stop_throws = False\<rparr>,
                             \<lparr>source_id = 2, source_stop_throws = True\<rparr>]\<rparr>)))
     = [''Error closing live session:'', ''Error disconnecting script processor:'',
        ''Error stopping audio sources:''] \<and>
   pending_catch (snd (cleanupAudioAndSession
     (initial_state
        \<lparr>liveSessionRef := Some \<lparr>session_close_throws = True\<rparr>,
         inputAudioContextRef :=
           Some \<lparr>ctx_state = Running, resume_rejects = False, close_rejects = True\<rparr>,
         outputAudioContextRef :=
           Some \<lparr>ctx_state = Running, resume_rejects = False, close_rejects = False\<rparr>,
         scriptProcessorRef := Some \<lparr>disconnect_throws = True\<rparr>,
         localStreamRef := Some \<lparr>tracks = [\<lparr>track_id = 0, track_stop_throws = False\<rparr>]\<rparr>,
         mediaStreamSourceRef := Some \<lparr>disconnect_throws = False\<rparr>,
         audioSourcesRef := [\<lparr>source_id = 1, source_stop_throws = False\<rparr>,
                             \<lparr>source_id = 2, source_stop_throws = True\<rparr>]\<rparr>)))
     = [''Error closing input audio context:''] \<and>
   cleanupAudioAndSession initial_state = (Normal, initial_state)"
proof -
  let ?s = "initial_state
        \<lparr>liveSessionRef := Some \<lparr>session_close_throws = True\<rparr>,
         inputAudioContextRef :=
           Some \<lparr>ctx_state = Running, resume_rejects = False, close_rejects = True\<rparr>,
         outputAudioContextRef :=
           Some \<lparr>ctx_state = Running, resume_rejects = False, close_rejects = False\<rparr>,
         scriptProcessorRef := Some \<lparr>disconnect_throws = True\<rparr>,
         localStreamRef := Some \<lparr>tracks = [\<lparr>track_id = 0, track_stop_throws = False\<rparr>]\<rparr>,
         mediaStreamSourceRef := Some \<lparr>disconnect_throws = False\<rparr>,
         audioSourcesRef := [\<lparr>source_id = 1, source_stop_throws = False\<rparr>,
                             \<lparr>source_id = 2, source_stop_throws = True\<rparr>]\<rparr>"
  have h: "tracks_stop_quietly ?s"
    by (simp add: tracks_stop_quietly_def)
  have h0: "tracks_stop_quietly initial_state"
    by (simp add: tracks_stop_quietly_def initial_state_def)
  obtain c s' where cs: "cleanupAudioAndSession ?s = (c, s')"
    by (cases "cleanupAudioAndSession ?s")
  from reaper_releases_all_resources [OF h, of 0]
  have 1: "c = Normal \<and> released s' \<and>
      host_calls s' = [TrackStop 0, MediaSourceDisconnect, SourceStop 1, OutputContextClose] \<and>
      console s' = [''Error closing live session:'', ''Error disconnecting script processor:'',
        ''Error stopping audio sources:''] \<and>
      pending_catch s' = [''Error closing input audio context:'']"
    unfolding cs by (simp add: initial_state_def logged_def called_def holds_on_def)
  obtain c0 s0 where cs0: "cleanupAudioAndSession initial_state = (c0, s0)"
    by (cases "cleanupAudioAndSession initial_state")
  from reaper_releases_all_resources [OF h0, of 0]
  have "c0 = Normal \<and> released s0 \<and> host_calls s0 = [] \<and> console s0 = [] \<and> pending_catch s0 = []"
    unfolding cs0 by (simp add: initial_state_def logged_def called_def holds_on_def)
  moreover have "nextStartTimeRef s0 = Finite 0 \<and> react s0 = initial_react \<and> requests s0 = [] \<and>
      inactivityTimer s0 = None \<and> sessionCallbacks s0 = None \<and> streetViewInstance s0 = None"
    using cleanup_quiet [OF h0] cs0
    by (auto simp add: initial_state_def initial_react_def)
  ultimately have "s0 = initial_state"
    by (cases s0) (simp add: initial_state_def released_def)
  with cs0 \<open>c0 = Normal \<and> _\<close> have 2: "cleanupAudioAndSession initial_state = (Normal, initial_state)"
    by simp
  from h 1 2 show ?thesis
    unfolding cs by simp
qed

section \<open>Properties of session control\<close>

lemma tracks_stop_quietly_released:
  "released s \<Longrightarrow> tracks_stop_quietly s"
  by (simp add: released_def tracks_stop_quietly_def)

lemma tracks_stop_quietly_cong:
  "localStreamRef s' = localStreamRef s \<Longrightarrow> tracks_stop_quietly s' = tracks_stop_quietly s"
  by (simp add: tracks_stop_quietly_def)

lemma handleCloseRehearsal_quiet:
  assumes "tracks_stop_quietly s"
  shows "\<exists>s'. handleCloseRehearsal s = (Normal, s') \<and> released s' \<and>
     status (react s') = Idle \<and> scenario (react s') = None \<and> transcript (react s') = [] \<and>
     requests s' = requests s"
proof -
  from cleanup_quiet [OF assms]
  obtain s1 where c: "cleanupAudioAndSession s = (Normal, s1)" and r: "released s1"
    and q: "requests s1 = requests s"
    by blast
  show ?thesis
    using r q
    by (cases "streetViewInstance s1")
      (simp_all add: handleCloseRehearsal_def c Let_def released_def setStudyCardHint_def
        setError_def setResult_def setTranscript_def setScenario_def setStatus_def
        console_error_def)
qed

lemma handleEndConversation_empty:
  assumes "status closure \<noteq> Summarizing" and "transcript closure = []"
    and "tracks_stop_quietly s"
  shows "\<exists>s'. handleEndConversation summary title closure s = (Normal, s') \<and> released s' \<and>
     status (react s') = Idle \<and> requests s' = requests s"
proof -
  have "tracks_stop_quietly (setStatus Summarizing s)"
    using assms(3) by (simp add: tracks_stop_quietly_def setStatus_def)
  from cleanup_quiet [OF this]
  obtain s1 where c: "cleanupAudioAndSession (setStatus Summarizing s) = (Normal, s1)"
    and r: "released s1" and q: "requests s1 = requests (setStatus Summarizing s)"
    by blast
  from handleCloseRehearsal_quiet [OF tracks_stop_quietly_released [OF r]]
  obtain s2 where h: "handleCloseRehearsal s1 = (Normal, s2)" and r2: "released s2"
    and i: "status (react s2) = Idle" and q2: "requests s2 = requests s1"
    by blast
  have "handleEndConversation summary title closure s = (Normal, s2)"
    using assms(1,2) c h by (cases "scenario closure") (simp_all add: handleEndConversation_def)
  with r2 i q q2 show ?thesis
    by (simp add: setStatus_def)
qed

text \<open>
  Claim C7.  \<^verbatim>\<open>handleEndConversation\<close> is called from the End button, which is enabled
  only while the status is \<open>Active\<close>, and from \<^verbatim>\<open>onClose\<close> under the test that the
  status is \<open>Active\<close>: the status it closed over is \<open>Active\<close>.  Called with a transcript of
  zero entries (and tracks that stop without raising, as \<^verbatim>\<open>MediaStreamTrack.stop()\<close> does),
  it returns normally with the status \<open>Idle\<close> and sends no request to any collaborator, so
  none to the summarization collaborator.
\<close>

theorem end_with_empty_transcript_goes_idle:
  assumes "status closure = Active" and "transcript closure = []"
    and "tracks_stop_quietly s"
  shows "case handleEndConversation summary title closure s of
           (c, s') \<Rightarrow>
             c = Normal \<and> status (react s') = Idle \<and> requests s' = requests s \<and>
             \<not> list_ex is_summarize (drop (length (requests s)) (requests s'))"
proof -
  from assms(1) have "status closure \<noteq> Summarizing"
    by simp
  from handleEndConversation_empty [OF this assms(2,3)]
  obtain s' where "handleEndConversation summary title closure s = (Normal, s')"
    and "status (react s') = Idle" and "requests s' = requests s"
    by blast
  then show ?thesis
    by simp
qed

theorem end_with_empty_transcript_goes_idle_witness:
  "status (react (setStatus Active briefing_state)) = Active \<and>
   transcript (react (setStatus Active briefing_state)) = [] \<and>
   fst (handleEndConversation (Inr demo_result) (Inr ''Cafe'')
          (react (setStatus Active briefing_state)) (setStatus Active briefing_state)) = Normal \<and>
   status (react (snd (handleEndConversation (Inr demo_result) (Inr ''Cafe'')
          (react (setStatus Active briefing_state)) (setStatus Active briefing_state)))) = Idle \<and>
   requests (snd (handleEndConversation (Inr demo_result) (Inr ''Cafe'')
          (react (setStatus Active briefing_state)) (setStatus Active briefing_state))) = []"
proof -
  let ?s = "setStatus Active briefing_state"
  have h1: "status (react ?s) = Active" and h2: "transcript (react ?s) = []"
    and h3: "tracks_stop_quietly ?s" and q: "requests ?s = []"
    by (simp_all add: briefing_state_def setStatus_def setScenario_def initial_state_def
        initial_react_def tracks_stop_quietly_def)
  obtain c s' where e: "handleEndConversation (Inr demo_result) (Inr ''Cafe'') (react ?s) ?s = (c, s')"
    by (cases "handleEndConversation (Inr demo_result) (Inr ''Cafe'') (react ?s) ?s")
  from end_with_empty_transcript_goes_idle [OF h1 h2 h3, of "Inr demo_result" "Inr ''Cafe''"]
  have "c = Normal \<and> status (react s') = Idle \<and> requests s' = []"
    unfolding e by (simp add: q)
  with h1 h2 show ?thesis
    unfolding e by simp
qed

lemma playAudioChunk_frame:
  assumes "playAudioChunk atob now src chunk s = (outcome, s')"
  shows "react s' = react s \<and> localStreamRef s' = localStreamRef s \<and>
     sessionCallbacks s' = sessionCallbacks s \<and> requests s' = requests s"
  using assms
  by (auto simp add: playAudioChunk_def Let_def console_error_def
      split: option.splits if_splits sum.splits)

lemma opening_line_frame:
  "status (react (opening_line env isContinuing sc s)) = status (react s) \<and>
   localStreamRef (opening_line env isContinuing sc s) = localStreamRef s \<and>
   sessionCallbacks (opening_line env isContinuing sc s) = sessionCallbacks s"
proof (cases "openingLine sc")
  case None
  then show ?thesis by (simp add: opening_line_def)
next
  case (Some line)
  let ?s3 = "send_request (GenerateSpeech line (voice (npcProfile sc)))
      (setTranscript [\<lparr>speaker = Npc, text' = line, isFinal = True, imageUrl = None\<rparr>]
        (setIsNpcSpeaking True s))"
  have s3: "status (react ?s3) = status (react s)" "localStreamRef ?s3 = localStreamRef s"
    "sessionCallbacks ?s3 = sessionCallbacks s"
    by (simp_all add: send_request_def setTranscript_def setIsNpcSpeaking_def)
  show ?thesis
  proof (cases "conversationStarter sc = Npc \<and> line \<noteq> [] \<and> \<not> isContinuing")
    case False
    with Some show ?thesis by (auto simp add: opening_line_def)
  next
    case True
    show ?thesis
    proof (cases "generateSpeech_result env")
      case (Inl e)
      with Some True s3 show ?thesis
        by (simp add: opening_line_def Let_def setIsNpcSpeaking_def console_error_def)
    next
      case (Inr audio)
      show ?thesis
      proof (cases "audio = None \<or> audio = Some []")
        case True
        with Some \<open>conversationStarter sc = Npc \<and> line \<noteq> [] \<and> \<not> isContinuing\<close> Inr s3
        show ?thesis
          by (auto simp add: opening_line_def Let_def setIsNpcSpeaking_def console_error_def)
      next
        case False
        then obtain audioData where a: "audio = Some audioData" "audioData \<noteq> []"
          by auto
        obtain outcome s4 where p: "playAudioChunk (env_atob env) (env_currentTime env)
            (env_bufferSource env) audioData ?s3 = (outcome, s4)"
          by (cases "playAudioChunk (env_atob env) (env_currentTime env)
            (env_bufferSource env) audioData ?s3")
        from playAudioChunk_frame [OF p] s3
        have f: "status (react s4) = status (react s)" "localStreamRef s4 = localStreamRef s"
          "sessionCallbacks s4 = sessionCallbacks s"
          by simp_all
        show ?thesis
          using Some \<open>conversationStarter sc = Npc \<and> line \<noteq> [] \<and> \<not> isContinuing\<close> Inr a p f
          by (cases outcome)
            (simp_all add: opening_line_def Let_def setIsNpcSpeaking_def console_error_def)
      qed
    qed
  qed
qed

text \<open>
  A conversation begun from a render: when the channel opens the status is \<open>Active\<close>, and
  the channel's callbacks hold the values of the render the handler was created in.
\<close>

lemma handleBeginConversation_opens:
  assumes "scenario closure = Some sc" and "getUserMedia_result env = Inr stream"
    and "connect_result env = Inr session"
  shows "status (react (handleBeginConversation env isContinuing closure s)) = Active \<and>
     localStreamRef (handleBeginConversation env isContinuing closure s) = Some stream \<and>
     sessionCallbacks (handleBeginConversation env isContinuing closure s) = Some closure"
proof -
  let ?s5 = "setStatus Active
      (setTranslation None (if \<not> isContinuing then setTranscript [] (setStatus Ready s)
                            else setStatus Ready s)
        \<lparr>localStreamRef := Some stream,
          inputAudioContextRef := Some (inContext env),
          mediaStreamSourceRef := Some (sourceNode env),
          scriptProcessorRef := Some (processorNode env),
          outputAudioContextRef := Some (outContext env),
          nextStartTimeRef := Finite 0,
          sessionCallbacks := Some closure,
          liveSessionRef := Some session\<rparr>)"
  have z: "status (react ?s5) = Active" "localStreamRef ?s5 = Some stream"
    "sessionCallbacks ?s5 = Some closure"
    by (simp_all add: setStatus_def)
  have "handleBeginConversation env isContinuing closure s = opening_line env isContinuing sc ?s5"
    using assms by (simp add: handleBeginConversation_def Let_def)
  with opening_line_frame [of env isContinuing sc ?s5] z show ?thesis
    by simp
qed

text \<open>
  The close callback of a channel whose callbacks were created in a render that was not
  \<open>Active\<close>: teardown only; the status and the requests stay as they are.
\<close>

lemma channel_closed_stale:
  assumes "sessionCallbacks s = Some closure" and "status closure \<noteq> Active"
    and "tracks_stop_quietly s"
  shows "\<exists>s'. channel_closed summary title s = (Normal, s') \<and> released s' \<and>
     status (react s') = status (react s) \<and> requests s' = requests s"
proof -
  let ?s1 = "console_error ''Conversation closed by server.'' s"
  have "tracks_stop_quietly ?s1"
    using assms(3) by (simp add: tracks_stop_quietly_def console_error_def)
  from cleanup_quiet [OF this]
  obtain s' where c: "cleanupAudioAndSession ?s1 = (Normal, s')" and r: "released s'"
    and re: "react s' = (react ?s1)\<lparr>isRecording := False, isNpcSpeaking := False\<rparr>"
    and q: "requests s' = requests ?s1"
    by blast
  have "channel_closed summary title s = (Normal, s')"
    using assms(1,2) c by (simp add: channel_closed_def onClose_def Let_def)
  with r re q show ?thesis
    by (simp add: console_error_def)
qed

text \<open>
  Claim C5 on the code.  The conversation is begun from the briefing screen, so the
  callbacks of the channel close over the status \<open>Briefing\<close>.  The channel opens, the status
  becomes \<open>Active\<close> and a fragment of the user's speech arrives.  When the channel then
  reports close, \<^verbatim>\<open>onClose\<close> compares the status it closed over with \<open>Active\<close>: teardown
  runs, the status stays \<open>Active\<close>, and no request goes to the summarization collaborator.
\<close>

theorem remote_close_while_active_only_tears_down:
  "status (react (setTranscript [fragment User ''Bonjour'']
      (handleBeginConversation demo_env False (react briefing_state) briefing_state))) = Active \<and>
   transcript (react (setTranscript [fragment User ''Bonjour'']
      (handleBeginConversation demo_env False (react briefing_state) briefing_state)))
     = [fragment User ''Bonjour''] \<and>
   fst (channel_closed (Inr demo_result) (Inr ''Cafe'')
     (setTranscript [fragment User ''Bonjour'']
        (handleBeginConversation demo_env False (react briefing_state) briefing_state))) = Normal \<and>
   status (react (snd (channel_closed (Inr demo_result) (Inr ''Cafe'')
     (setTranscript [fragment User ''Bonjour'']
        (handleBeginConversation demo_env False (react briefing_state) briefing_state))))) = Active \<and>
   requests (snd (channel_closed (Inr demo_result) (Inr ''Cafe'')
     (setTranscript [fragment User ''Bonjour'']
        (handleBeginConversation demo_env False (react briefing_state) briefing_state)))) = [] \<and>
   released (snd (channel_closed (Inr demo_result) (Inr ''Cafe'')
     (setTranscript [fragment User ''Bonjour'']
        (handleBeginConversation demo_env False (react briefing_state) briefing_state))))"
proof -
  let ?begun = "handleBeginConversation demo_env False (react briefing_state) briefing_state"
  let ?live = "setTranscript [fragment User ''Bonjour''] ?begun"
  have b: "scenario (react briefing_state) = Some demo_scenario"
    "status (react briefing_state) \<noteq> Active"
    by (simp_all add: briefing_state_def setScenario_def setStatus_def)
  have g: "getUserMedia_result demo_env = Inr \<lparr>tracks = [\<lparr>track_id = 0, track_stop_throws = False\<rparr>]\<rparr>"
    "connect_result demo_env = Inr \<lparr>session_close_throws = False\<rparr>"
    by (simp_all add: demo_env_def)
  from handleBeginConversation_opens [OF b(1) g, of False briefing_state]
  have o: "status (react ?begun) = Active"
    "localStreamRef ?begun = Some \<lparr>tracks = [\<lparr>track_id = 0, track_stop_throws = False\<rparr>]\<rparr>"
    "sessionCallbacks ?begun = Some (react briefing_state)"
    by simp_all
  have q0: "requests ?begun = []"
    using b(1)
    by (simp add: handleBeginConversation_def Let_def demo_env_def opening_line_def
        demo_scenario_def briefing_state_def setStatus_def setScenario_def setTranscript_def
        setTranslation_def initial_state_def)
  have l: "status (react ?live) = Active" "transcript (react ?live) = [fragment User ''Bonjour'']"
    "sessionCallbacks ?live = Some (react briefing_state)" "requests ?live = []"
    "tracks_stop_quietly ?live"
    using o q0 by (simp_all add: setTranscript_def tracks_stop_quietly_def)
  from channel_closed_stale [OF l(3) b(2) l(5), of "Inr demo_result" "Inr ''Cafe''"]
  obtain s' where "channel_closed (Inr demo_result) (Inr ''Cafe'') ?live = (Normal, s')"
    and "released s'" and "status (react s') = status (react ?live)"
    and "requests s' = requests ?live"
    by blast
  with l show ?thesis
    by simp
qed

section \<open>Properties of the force-stop and of the next-start time\<close>

lemma begin_failed_nextStartTime [simp]:
  "nextStartTimeRef (begin_failed message s) = nextStartTimeRef s"
  by (simp add: begin_failed_def Let_def setError_def setStatus_def console_error_def)


lemma playAudioChunk_from_zero_scheduled:
  assumes "outputAudioContextRef s = Some ctx"
    and "\<not> (ctx_state ctx = Suspended \<and> resume_rejects ctx)" and "chunk \<noteq> []"
    and "decode atob chunk = Inr bytes" and "decodeAudioData bytes 24000 1 = Inr b"
    and "nextStartTimeRef s = Finite 0"
  shows "fst (playAudioChunk atob now src chunk s) = Scheduled (max 0 now) (duration b) \<and>
         nextStartTimeRef (snd (playAudioChunk atob now src chunk s))
           = plus_number (Finite (max 0 now)) (duration b)"
  using assms by (simp add: playAudioChunk_def Let_def)







section \<open>Properties of the inactivity watchdog\<close>

lemma timer_fired_requests:
  "requests (snd (timer_fired hint_result s)) =
     requests s @
       (case inactivityTimer s of
          None \<Rightarrow> []
        | Some closure \<Rightarrow>
            (case scenario closure of
               None \<Rightarrow> []
             | Some sc \<Rightarrow>
                 if status closure = Active
                 then [GenerateHint sc (filter isFinal (transcript closure))] else []))"
  by (simp add: timer_fired_def inactivity_callback_def Let_def send_request_def setHint_def
      split: option.splits sum.splits)

lemma timer_fired_ignores_flags:
  "requests (snd (timer_fired hint_result (setIsRecording recording (setIsNpcSpeaking speaking s))))
     = requests (snd (timer_fired hint_result s))"
  by (simp add: timer_fired_requests setIsRecording_def setIsNpcSpeaking_def)

lemma commit_render_timer:
  "inactivityTimer (commit_render s) =
     (if status (react s) = Active \<and> \<not> isNpcSpeaking (react s) \<and> \<not> isRecording (react s)
      then Some (react s) else None)"
  by (simp add: commit_render_def watchdog_effect_def watchdog_cleanup_def
      startInactivityTimer_def clearInactivityTimer_def setHint_def Let_def)

lemma commit_render_requests: "requests (commit_render s) = requests s"
  by (simp add: commit_render_def watchdog_effect_def watchdog_cleanup_def
      startInactivityTimer_def clearInactivityTimer_def setHint_def Let_def)

lemma commit_render_frame:
  "status (react (commit_render s)) = status (react s) \<and>
   isNpcSpeaking (react (commit_render s)) = isNpcSpeaking (react s) \<and>
   outputAudioContextRef (commit_render s) = outputAudioContextRef s \<and>
   nextStartTimeRef (commit_render s) = nextStartTimeRef s \<and>
   sessionCallbacks (commit_render s) = sessionCallbacks s"
  by (simp add: commit_render_def watchdog_effect_def watchdog_cleanup_def
      startInactivityTimer_def clearInactivityTimer_def setHint_def Let_def)

lemma handleMicToggle_start_clears:
  "\<not> isRecording rendered \<Longrightarrow> inactivityTimer (snd (handleMicToggle rendered s)) = None"
  by (simp add: handleMicToggle_def startRecording_def setHint_def setIsRecording_def
      clearInactivityTimer_def)

text \<open>
  Claim C6, as amended.  The callback of the watchdog timer does not look at recording or at
  agent audio when it fires: what it requests is the same whatever the two flags are at that
  time.  The two conditions are kept by cancelling the timer.  A committed render leaves a
  timer pending only when the rendered state is \<open>Active\<close> with neither agent audio nor
  recording; the cleanup of the effect cancels whatever is pending; starting a recording
  cancels the timer in the handler of the button; and with no timer pending nothing happens.
  So a timer that fires in the state it was armed in sends the hint request exactly when that
  state is \<open>Active\<close>, neither speaking nor recording, with a scenario.
\<close>

theorem watchdog_cancels_instead_of_rechecking:
  "requests (snd (timer_fired hint_result (setIsRecording recording (setIsNpcSpeaking speaking s))))
     = requests (snd (timer_fired hint_result s)) \<and>
   (inactivityTimer s = None \<longrightarrow> timer_fired hint_result s = (Normal, s)) \<and>
   inactivityTimer (commit_render s) =
     (if status (react s) = Active \<and> \<not> isNpcSpeaking (react s) \<and> \<not> isRecording (react s)
      then Some (react s) else None) \<and>
   inactivityTimer (watchdog_cleanup s) = None \<and>
   (\<not> isRecording rendered \<longrightarrow> inactivityTimer (snd (handleMicToggle rendered s)) = None) \<and>
   requests (snd (timer_fired hint_result (commit_render s))) =
     requests s @
       (case scenario (react s) of
          None \<Rightarrow> []
        | Some sc \<Rightarrow>
            if status (react s) = Active \<and> \<not> isNpcSpeaking (react s) \<and> \<not> isRecording (react s)
            then [GenerateHint sc (filter isFinal (transcript (react s)))] else [])"
proof (intro conjI)
  show "requests (snd (timer_fired hint_result (setIsRecording recording (setIsNpcSpeaking speaking s))))
     = requests (snd (timer_fired hint_result s))"
    by (rule timer_fired_ignores_flags)
  show "inactivityTimer s = None \<longrightarrow> timer_fired hint_result s = (Normal, s)"
    by (simp add: timer_fired_def)
  show "inactivityTimer (commit_render s) =
     (if status (react s) = Active \<and> \<not> isNpcSpeaking (react s) \<and> \<not> isRecording (react s)
      then Some (react s) else None)"
    by (rule commit_render_timer)
  show "inactivityTimer (watchdog_cleanup s) = None"
    by (simp add: watchdog_cleanup_def clearInactivityTimer_def)
  show "\<not> isRecording rendered \<longrightarrow> inactivityTimer (snd (handleMicToggle rendered s)) = None"
    by (simp add: handleMicToggle_start_clears)
  show "requests (snd (timer_fired hint_result (commit_render s))) =
     requests s @
       (case scenario (react s) of
          None \<Rightarrow> []
        | Some sc \<Rightarrow>
            if status (react s) = Active \<and> \<not> isNpcSpeaking (react s) \<and> \<not> isRecording (react s)
            then [GenerateHint sc (filter isFinal (transcript (react s)))] else [])"
    by (simp add: timer_fired_requests commit_render_timer commit_render_requests
        split: option.splits)
qed

theorem watchdog_cancels_instead_of_rechecking_witness:
  "requests (snd (timer_fired (Inr demo_hint)
      (commit_render (setStatus Active briefing_state))))
     = [GenerateHint demo_scenario []] \<and>
   requests (snd (timer_fired (Inr demo_hint)
      (commit_render (setIsRecording True (setStatus Active briefing_state))))) = [] \<and>
   requests (snd (timer_fired (Inr demo_hint)
      (commit_render (setIsNpcSpeaking True (setStatus Active briefing_state))))) = [] \<and>
   inactivityTimer (snd (handleMicToggle (react (setStatus Active briefing_state))
      (commit_render (setStatus Active briefing_state)))) = None \<and>
   timer_fired (Inr demo_hint) briefing_state = (Normal, briefing_state)"
proof -
  let ?s = "setStatus Active briefing_state"
  have f: "status (react ?s) = Active" "\<not> isNpcSpeaking (react ?s)" "\<not> isRecording (react ?s)"
    "scenario (react ?s) = Some demo_scenario" "transcript (react ?s) = []" "requests ?s = []"
    by (simp_all add: briefing_state_def setStatus_def setScenario_def initial_state_def
        initial_react_def)
  have g: "isRecording (react (setIsRecording True ?s))"
    "scenario (react (setIsRecording True ?s)) = Some demo_scenario"
    "requests (setIsRecording True ?s) = []"
    using f by (simp_all add: setIsRecording_def)
  have k: "isNpcSpeaking (react (setIsNpcSpeaking True ?s))"
    "scenario (react (setIsNpcSpeaking True ?s)) = Some demo_scenario"
    "requests (setIsNpcSpeaking True ?s) = []"
    using f by (simp_all add: setIsNpcSpeaking_def)
  have n: "inactivityTimer briefing_state = None"
    by (simp add: briefing_state_def setStatus_def setScenario_def initial_state_def)
  from watchdog_cancels_instead_of_rechecking [of "Inr demo_hint" False False ?s] f
  have a: "requests (snd (timer_fired (Inr demo_hint) (commit_render ?s)))
      = [GenerateHint demo_scenario []]"
    by simp
  from watchdog_cancels_instead_of_rechecking [of "Inr demo_hint" False False "setIsRecording True ?s"] g
  have b: "requests (snd (timer_fired (Inr demo_hint)
      (commit_render (setIsRecording True ?s)))) = []"
    by simp
  from watchdog_cancels_instead_of_rechecking [of "Inr demo_hint" False False "setIsNpcSpeaking True ?s"] k
  have b': "requests (snd (timer_fired (Inr demo_hint)
      (commit_render (setIsNpcSpeaking True ?s)))) = []"
    by simp
  from watchdog_cancels_instead_of_rechecking
    [of "Inr demo_hint" False False "commit_render ?s" "react ?s"] f(3)
  have c: "inactivityTimer (snd (handleMicToggle (react ?s) (commit_render ?s))) = None"
    by blast
  from watchdog_cancels_instead_of_rechecking [of "Inr demo_hint" False False briefing_state] n
  have d: "timer_fired (Inr demo_hint) briefing_state = (Normal, briefing_state)"
    by blast
  from a b b' c d show ?thesis
    by simp
qed

text \<open>
  Claim C6 as stated fails.  A conversation is begun from the briefing screen; the channel
  opens and the render of the \<open>Active\<close> state, with neither agent audio nor recording, arms
  the timer.  A chunk of agent audio then arrives: \<^verbatim>\<open>onNpcAudio\<close> raises the speaking flag
  and the chunk is scheduled for playback.  If the timer fires before the next render has been
  committed, the hint request is sent although the agent is speaking at that time.
\<close>

theorem watchdog_fires_during_agent_audio:
  "status (react (commit_render
      (handleBeginConversation demo_env False (react briefing_state) briefing_state))) = Active \<and>
   inactivityTimer (commit_render
      (handleBeginConversation demo_env False (react briefing_state) briefing_state))
     = Some (react (handleBeginConversation demo_env False (react briefing_state) briefing_state)) \<and>
   sessionCallbacks (commit_render
      (handleBeginConversation demo_env False (react briefing_state) briefing_state))
     = Some (react briefing_state) \<and>
   fst (onNpcAudio Some 0 \<lparr>source_id = 1, source_stop_throws = False\<rparr> (react briefing_state) ''ab''
      (commit_render
        (handleBeginConversation demo_env False (react briefing_state) briefing_state)))
     = Scheduled 0 (Finite (6148914691236517 / 2 ^ 67)) \<and>
   isNpcSpeaking (react (snd (onNpcAudio Some 0 \<lparr>source_id = 1, source_stop_throws = False\<rparr>
      (react briefing_state) ''ab''
      (commit_render
        (handleBeginConversation demo_env False (react briefing_state) briefing_state))))) \<and>
   requests (snd (timer_fired (Inr demo_hint)
      (snd (onNpcAudio Some 0 \<lparr>source_id = 1, source_stop_throws = False\<rparr>
         (react briefing_state) ''ab''
         (commit_render
           (handleBeginConversation demo_env False (react briefing_state) briefing_state))))))
     = [GenerateHint demo_scenario []]"
proof -
  let ?live = "handleBeginConversation demo_env False (react briefing_state) briefing_state"
  let ?armed = "commit_render ?live"
  let ?src = "\<lparr>source_id = 1, source_stop_throws = False\<rparr>"
  let ?b = "\<lparr>sampleRate = 24000, frames = 1,
             channelData = [[Finite (real_of_int (sint (25185 :: 16 word)) / 32768)]]\<rparr>"
  have l: "react ?live = (react briefing_state)\<lparr>status := Active\<rparr>"
    "outputAudioContextRef ?live = Some (outContext demo_env)"
    "nextStartTimeRef ?live = Finite 0" "requests ?live = []"
    "sessionCallbacks ?live = Some (react briefing_state)"
    by (simp_all add: handleBeginConversation_def Let_def demo_env_def opening_line_def
        demo_scenario_def briefing_state_def setStatus_def setScenario_def setTranscript_def
        setTranslation_def initial_state_def initial_react_def)
  have r: "status (react ?live) = Active" "\<not> isNpcSpeaking (react ?live)"
    "\<not> isRecording (react ?live)" "scenario (react ?live) = Some demo_scenario"
    "transcript (react ?live) = []" "\<not> isNpcSpeaking (react briefing_state)"
    unfolding l
    by (simp_all add: briefing_state_def setStatus_def setScenario_def initial_state_def
        initial_react_def)
  have t: "inactivityTimer ?armed = Some (react ?live)" and q: "requests ?armed = []"
    using r l(4) by (simp_all add: commit_render_timer commit_render_requests)
  have a: "status (react ?armed) = Active" "outputAudioContextRef ?armed = Some (outContext demo_env)"
    "nextStartTimeRef ?armed = Finite 0" "sessionCallbacks ?armed = Some (react briefing_state)"
    using commit_render_frame [of ?live] r l by simp_all
  let ?raised = "setIsNpcSpeaking True ?armed"
  have ra: "outputAudioContextRef ?raised = Some (outContext demo_env)"
    "nextStartTimeRef ?raised = Finite 0"
    using a by (simp_all add: setIsNpcSpeaking_def)
  have d: "decodeAudioData [97, 98] 24000 1 = Inr ?b"
    by (simp add: decodeAudioData_def Let_def)
  have dc: "decode Some ''ab'' = Inr [97, 98]"
    by (simp add: decode_def)
  have c: "\<not> (ctx_state (outContext demo_env) = Suspended \<and> resume_rejects (outContext demo_env))"
    by (simp add: demo_env_def)
  from playAudioChunk_from_zero_scheduled [OF ra(1) c _ dc d ra(2), of 0 ?src]
  have p: "fst (playAudioChunk Some 0 ?src ''ab'' ?raised) = Scheduled 0 (duration ?b)"
    by simp
  have du: "duration ?b = Finite (6148914691236517 / 2 ^ 67)"
    by (simp add: duration_def binary64_def ulp_def exponent_def compute_bitlen
        round_half_even_def Let_def power_int_minus)
  obtain outcome spoken where o: "playAudioChunk Some 0 ?src ''ab'' ?raised = (outcome, spoken)"
    by (cases "playAudioChunk Some 0 ?src ''ab'' ?raised")
  from playAudioChunk_frame [OF o]
  have fr: "react spoken = react ?raised" "requests spoken = requests ?raised"
    by simp_all
  have ti: "inactivityTimer spoken = inactivityTimer ?raised"
    using o
    by (auto simp add: playAudioChunk_def Let_def console_error_def
        split: option.splits if_splits sum.splits)
  have on: "onNpcAudio Some 0 ?src (react briefing_state) ''ab'' ?armed = (outcome, spoken)"
    using r(6) o by (simp add: onNpcAudio_def)
  have s1: "isNpcSpeaking (react spoken)" "inactivityTimer spoken = Some (react ?live)"
    "requests spoken = []"
    using fr ti t q by (simp_all add: setIsNpcSpeaking_def)
  have "requests (snd (timer_fired (Inr demo_hint) spoken)) = [GenerateHint demo_scenario []]"
    using s1 r by (simp add: timer_fired_requests)
  moreover have "outcome = Scheduled 0 (Finite (6148914691236517 / 2 ^ 67))"
    using p o du by simp
  ultimately show ?thesis
    using a(1,4) t s1(1) unfolding on by simp
qed

end
